theory Spec2Isabelle
  imports Main "HOL-Library.Word"
begin

unbundle bit_operations_syntax

section \<open>Machine integers and byte order\<close>

type_synonym u8 = "8 word"
type_synonym u16 = "16 word"
type_synonym u32 = "32 word"

text \<open>
  Modelled from the spec: \<^verbatim>\<open>byteswap.h\<close> is missing; the header fields of a MAD are in
  "network byte order". The transaction id is compared with \<^verbatim>\<open>memcmp\<close>, so the bytes a
  32-bit object occupies in memory matter. The byte order of the host is a parameter:
  \<^verbatim>\<open>htonl\<close> and \<^verbatim>\<open>htons\<close> swap the bytes on a little-endian host and are the identity on
  a big-endian one.
\<close>

datatype endianness = Little_endian | Big_endian

definition be_bytes :: "u32 \<Rightarrow> u8 list" where
  "be_bytes w = [ucast (drop_bit 24 w), ucast (drop_bit 16 w), ucast (drop_bit 8 w), ucast w]"

definition be_word :: "u8 list \<Rightarrow> u32" where
  "be_word bs = (case bs of
      [a, b, c, d] \<Rightarrow> push_bit 24 (ucast a) OR push_bit 16 (ucast b) OR push_bit 8 (ucast c) OR ucast d
    | _ \<Rightarrow> 0)"

definition bswap_32 :: "u32 \<Rightarrow> u32" where
  "bswap_32 x = be_word (rev (be_bytes x))"

definition bswap_16 :: "u16 \<Rightarrow> u16" where
  "bswap_16 x = push_bit 8 x OR drop_bit 8 x"

definition htonl :: "endianness \<Rightarrow> u32 \<Rightarrow> u32" where
  "htonl e x = (case e of Little_endian \<Rightarrow> bswap_32 x | Big_endian \<Rightarrow> x)"

definition htons :: "endianness \<Rightarrow> u16 \<Rightarrow> u16" where
  "htons e x = (case e of Little_endian \<Rightarrow> bswap_16 x | Big_endian \<Rightarrow> x)"

text \<open>The bytes of a \<^verbatim>\<open>uint32_t\<close> object in the memory of the host, lowest address first.\<close>

definition u32_bytes :: "endianness \<Rightarrow> u32 \<Rightarrow> u8 list" where
  "u32_bytes e w = (case e of Little_endian \<Rightarrow> rev (be_bytes w) | Big_endian \<Rightarrow> be_bytes w)"

text \<open>
  \<^verbatim>\<open>ntohl\<close>: the number a word in network byte order stands for, read off its bytes.
\<close>

definition ntohl :: "endianness \<Rightarrow> u32 \<Rightarrow> u32" where
  "ntohl e w = be_word (u32_bytes e w)"

text \<open>
  \<^verbatim>\<open>memcmp ( s1, s2, n )\<close> on the byte images of two objects: zero when the first \<open>n\<close>
  bytes agree, otherwise the difference of the first pair of bytes that differ. Both
  objects hold at least \<open>n\<close> bytes wherever this file calls it.
\<close>

fun memcmp :: "u8 list \<Rightarrow> u8 list \<Rightarrow> nat \<Rightarrow> int" where
  "memcmp (x # xs) (y # ys) (Suc n) =
     (if x = y then memcmp xs ys n else int (unat x) - int (unat y))"
| "memcmp _ _ _ = 0"

section \<open>Data model\<close>

text \<open>
  Modelled from the spec: the structure declarations (\<^verbatim>\<open>ib_mad.h\<close>, \<^verbatim>\<open>infiniband.h\<close>,
  \<^verbatim>\<open>ib_gma.h\<close>, \<^verbatim>\<open>retry.h\<close>, \<^verbatim>\<open>iobuf.h\<close>) are missing. The records below carry every
  member \<^verbatim>\<open>ib_gma.c\<close> reads or writes, under the member's own name, with the types of the
  i386 build: \<^verbatim>\<open>unsigned int\<close> and \<^verbatim>\<open>unsigned long\<close> are 32 bits wide.
\<close>

record ib_address_vector =
  qpn :: u32
  qkey :: u32
  lid :: u32
  rate :: u32
  sl :: u32
  gid_present :: u32
  gid :: "u8 list"

record ib_device =
  port :: u32
  sm_lid :: u16
  sm_sl :: u8

text \<open>
  \<^verbatim>\<open>struct ib_mad_hdr\<close>. \<open>hop_pointer\<close> and \<open>hop_count\<close> are the members
  \<^verbatim>\<open>class_specific.smp.hop_pointer\<close> and \<^verbatim>\<open>class_specific.smp.hop_count\<close>;
  \<open>tid\<close> is the array \<^verbatim>\<open>uint32_t tid[2]\<close>.
\<close>

record ib_mad_hdr =
  base_version :: u8
  mgmt_class :: u8
  class_version :: u8
  "method" :: u8
  status :: u16
  hop_pointer :: u8
  hop_count :: u8
  tid :: "u32 \<times> u32"
  attr_id :: u16
  reserved :: u16
  attr_mod :: u32

record ib_smp_dr_path =
  hops :: "u8 list"

text \<open>
  \<^verbatim>\<open>union ib_mad\<close>, seen through the members this file uses: the common header, the
  return path of a directed-route SMP (a fixed-size array, here a list whose length is the
  number of elements of the array), and the remaining bytes of the datagram.
\<close>

record ib_mad =
  hdr :: ib_mad_hdr
  smp_data :: "u8 list"
  return_path :: ib_smp_dr_path

text \<open>
  An entry of the link-time table \<^verbatim>\<open>IB_MAD_HANDLERS\<close>. Its first four members bear the
  names of the header fields they are compared with; they are prefixed here to tell them
  apart. A handler receives the device and the MAD, changes the MAD in place and returns
  a status code.
\<close>

record ib_mad_handler =
  h_mgmt_class :: u8
  h_class_version :: u8
  h_method :: u8
  h_attr_id :: u16
  resp_method :: u8
  handle :: "ib_device \<Rightarrow> ib_mad \<Rightarrow> int \<times> ib_mad"

datatype timer_callback = Ib_gma_timer_expired

record retry_timer =
  running :: bool
  expired :: "timer_callback option"

text \<open>
  \<^verbatim>\<open>struct ib_mad_request\<close>. The members \<^verbatim>\<open>gma\<close> and \<^verbatim>\<open>list\<close> tie a request to the
  agent that owns it; here that is membership in the agent's \<open>requests\<close>.
\<close>

record ib_mad_request =
  timer :: retry_timer
  av :: ib_address_vector
  mad :: ib_mad

record ib_gma =
  ibdev :: ib_device
  cq :: nat
  qp :: nat
  requests :: "ib_mad_request list"

text \<open>
  An I/O buffer: the number of bytes it holds and, as the code does after its cast of
  \<^verbatim>\<open>iobuf->data\<close>, those bytes seen as a MAD.
\<close>

record io_buffer =
  iob_len :: nat
  data :: ib_mad

text \<open>
  What the missing headers define: the byte order of the host, the constants of
  \<^verbatim>\<open>ib_mad.h\<close>, \<^verbatim>\<open>infiniband.h\<close> and \<^verbatim>\<open>errno.h\<close>, \<^verbatim>\<open>sizeof ( union ib_mad )\<close>, and
  the handler table the linker assembles.
\<close>

record ib_env =
  host_endian :: endianness
  sizeof_mad :: nat
  IB_MGMT_BASE_VERSION :: u8
  IB_MGMT_CLASS_SUBN_DIRECTED_ROUTE :: u8
  IB_MGMT_METHOD_TRAP :: u8
  IB_MGMT_STATUS_UNSUPPORTED_METHOD_ATTR :: u16
  IB_SMP_STATUS_D_INBOUND :: u16
  IB_QPN_SMA :: u32
  IB_QPN_GMA :: u32
  IB_QKEY_SMA :: u32
  IB_QKEY_GMA :: u32
  IB_RATE_2_5 :: u32
  ENOTSUP :: int
  ENOMEM :: int
  IB_MAD_HANDLERS :: "ib_mad_handler list"

text \<open>\<^verbatim>\<open>( 'g' << 24 ) | ( 'P' << 16 ) | ( 'X' << 8 ) | 'E'\<close>\<close>

definition IB_GMA_TID_MAGIC :: u32 where
  "IB_GMA_TID_MAGIC = push_bit 24 0x67 OR push_bit 16 0x50 OR push_bit 8 0x58 OR 0x45"

subsection \<open>Effects\<close>

text \<open>
  The calls this file makes into the rest of the program are recorded, in order, as
  events: debug messages, assertions, timer operations, unlinking, allocation and release,
  and submissions to the transport. A request or buffer in an event is the object as it
  is at the time of the call; a buffer argument is a pointer and may be \<^verbatim>\<open>NULL\<close>
  (\<open>None\<close>). The last argument of \<open>Ib_post_send\<close> is the status the transport returned.
  (\<^verbatim>\<open>list_add\<close> shows in the agent's list only.)
\<close>

datatype dbg =
    RX_error int
  | RX_bad_size nat
  | Unsupported_base_version u8
  | RX_TID ib_mad_hdr
  | Could_not_handle "u32 \<times> u32" int
  | TX_TID ib_mad_hdr
  | Invalid_hop_pointer nat
  | Could_not_send_MAD_response int
  | Send_completion_error int
  | Abandoning_TID "u32 \<times> u32"
  | Could_not_allocate_buffer "u32 \<times> u32"
  | Could_not_send_TID "u32 \<times> u32" int
  | Could_not_allocate_MAD_request

datatype event =
    DBGC dbg
  | DBGC_HDA nat
  | DBGC2_HDA nat
  | Assert bool
  | Zalloc bool
  | List_del ib_mad_request
  | Free ib_mad_request
  | Start_timer ib_mad_request
  | Start_timer_nodelay ib_mad_request
  | Stop_timer ib_mad_request
  | Alloc_iob nat bool
  | Ib_post_send nat ib_address_vector "io_buffer option" int
  | Free_iob "io_buffer option"

text \<open>
  Modelled from the spec: the timer subsystem (\<^verbatim>\<open>retry.c\<close>) is missing; it offers
  "arm-with-no-delay, arm-with-backoff, disarm". A timer is armed or not.
\<close>

definition start_timer :: "retry_timer \<Rightarrow> retry_timer" where
  "start_timer t = t\<lparr>running := True\<rparr>"

definition start_timer_nodelay :: "retry_timer \<Rightarrow> retry_timer" where
  "start_timer_nodelay t = t\<lparr>running := True\<rparr>"

definition stop_timer :: "retry_timer \<Rightarrow> retry_timer" where
  "stop_timer t = t\<lparr>running := False\<rparr>"

text \<open>
  Modelled from the spec: the macro \<^verbatim>\<open>iob_disown\<close> (\<^verbatim>\<open>iobuf.h\<close>) is missing; "buffer
  disown and reuse [is] an explicit ownership transfer (move)". It yields the buffer the
  variable holds and leaves the variable empty.
\<close>

definition iob_disown :: "io_buffer option \<Rightarrow> io_buffer option \<times> io_buffer option" where
  "iob_disown iobuf = (iobuf, None)"

text \<open>
  Modelled from the spec: the macro \<^verbatim>\<open>assert\<close> (\<^verbatim>\<open>assert.h\<close>) is missing; the hop count
  is an "invariant asserted (not defensively recovered)". An assertion is recorded as an
  event and the code goes on whatever it finds.
\<close>

definition assert :: "bool \<Rightarrow> event list" where
  "assert condition = [Assert condition]"

section \<open>Handler registry\<close>

text \<open>The loop \<^verbatim>\<open>for_each_table_entry ( handler, IB_MAD_HANDLERS )\<close> and what follows it.\<close>

fun for_each_handler ::
  "ib_env \<Rightarrow> ib_mad_handler list \<Rightarrow> ib_device \<Rightarrow> ib_mad \<Rightarrow> int \<times> ib_mad" where
  "for_each_handler env [] dev m =
     (- ENOTSUP env,
      m\<lparr>hdr := (hdr m)\<lparr>method := IB_MGMT_METHOD_TRAP env,
        status := htons (host_endian env) (IB_MGMT_STATUS_UNSUPPORTED_METHOD_ATTR env)\<rparr>\<rparr>)"
| "for_each_handler env (handler # table) dev m =
     (if h_mgmt_class handler = mgmt_class (hdr m) \<and>
         h_class_version handler = class_version (hdr m) \<and>
         h_method handler = method (hdr m) \<and>
         h_attr_id handler = attr_id (hdr m)
      then handle handler dev (m\<lparr>hdr := (hdr m)\<lparr>method := resp_method handler\<rparr>\<rparr>)
      else for_each_handler env table dev m)"

definition ib_handle_mad :: "ib_env \<Rightarrow> ib_device \<Rightarrow> ib_mad \<Rightarrow> int \<times> ib_mad" where
  "ib_handle_mad env dev m = for_each_handler env (IB_MAD_HANDLERS env) dev m"

section \<open>Inbound dispatcher\<close>

definition tid_bytes :: "endianness \<Rightarrow> u32 \<times> u32 \<Rightarrow> u8 list" where
  "tid_bytes e t = u32_bytes e (fst t) @ u32_bytes e (snd t)"

text \<open>
  The loop \<^verbatim>\<open>list_for_each_entry ( request, &gma->requests, list )\<close> of
  \<^verbatim>\<open>ib_gma_complete_recv\<close>, with its \<^verbatim>\<open>break\<close>: the events of the first request whose
  transaction id compares equal, and the list without it.
  \<^verbatim>\<open>sizeof ( request->mad.hdr.tid )\<close> is 8.
\<close>

fun dequeue_request ::
  "endianness \<Rightarrow> u32 \<times> u32 \<Rightarrow> ib_mad_request list \<Rightarrow> event list \<times> ib_mad_request list" where
  "dequeue_request e t [] = ([], [])"
| "dequeue_request e t (request # rest) =
     (if memcmp (tid_bytes e (tid (hdr (mad request)))) (tid_bytes e t) 8 = 0
      then ([Stop_timer request,
             List_del (request\<lparr>timer := stop_timer (timer request)\<rparr>),
             Free (request\<lparr>timer := stop_timer (timer request)\<rparr>)], rest)
      else (case dequeue_request e t rest of (evs, rest') \<Rightarrow> (evs, request # rest')))"

text \<open>
  What a completion handler leaves behind: the agent, the address vector it was handed
  (a pointer in C, written through), and the events.
\<close>

record completion =
  c_gma :: ib_gma
  c_av :: ib_address_vector
  c_events :: "event list"

text \<open>The label \<^verbatim>\<open>out:\<close> of \<^verbatim>\<open>ib_gma_complete_recv\<close>: \<^verbatim>\<open>free_iob ( iobuf )\<close>.\<close>

definition out :: "ib_gma \<Rightarrow> ib_address_vector \<Rightarrow> event list \<Rightarrow> io_buffer option \<Rightarrow> completion" where
  "out gma dest evs iobuf = \<lparr>c_gma = gma, c_av = dest, c_events = evs @ [Free_iob iobuf]\<rparr>"

text \<open>
  The end of \<^verbatim>\<open>ib_gma_complete_recv\<close>, from "Construct return address" on; both
  branches of the directed-route test that go on reach it. \<open>send_rc\<close> is what
  \<^verbatim>\<open>ib_post_send\<close> returns.
\<close>

definition send_mad_response ::
  "ib_env \<Rightarrow> ib_gma \<Rightarrow> ib_address_vector \<Rightarrow> io_buffer \<Rightarrow> event list \<Rightarrow> int \<Rightarrow> completion" where
  "send_mad_response env gma dest iobuf evs send_rc =
     (let dest = dest\<lparr>
            qkey := (if qpn dest = IB_QPN_SMA env then IB_QKEY_SMA env else IB_QKEY_GMA env),
            rate := IB_RATE_2_5 env\<rparr>;
          (posted, iobuf) = iob_disown (Some iobuf);
          evs = evs @ [Ib_post_send (qp gma) dest posted send_rc]
      in if send_rc \<noteq> 0
         then out gma dest (evs @ [DBGC (Could_not_send_MAD_response send_rc)]) iobuf
         else out gma dest evs iobuf)"

text \<open>
  \<^verbatim>\<open>ib_gma_complete_recv ( ibdev, qp, av, iobuf, rc )\<close>: the agent is the owner of
  \<^verbatim>\<open>qp\<close>, and \<open>send_rc\<close> is what \<^verbatim>\<open>ib_post_send\<close> returns if it is called.
\<close>

definition ib_gma_complete_recv ::
  "ib_env \<Rightarrow> ib_device \<Rightarrow> ib_gma \<Rightarrow> ib_address_vector \<Rightarrow> io_buffer \<Rightarrow> int \<Rightarrow> int \<Rightarrow> completion" where
  "ib_gma_complete_recv env dev gma dest iobuf rc send_rc =
     (if rc \<noteq> 0 then out gma dest [DBGC (RX_error rc)] (Some iobuf)
      else if iob_len iobuf \<noteq> sizeof_mad env then
        out gma dest [DBGC (RX_bad_size (iob_len iobuf)), DBGC_HDA (iob_len iobuf)] (Some iobuf)
      else if base_version (hdr (data iobuf)) \<noteq> IB_MGMT_BASE_VERSION env then
        out gma dest [DBGC (Unsupported_base_version (base_version (hdr (data iobuf)))),
                      DBGC_HDA (sizeof_mad env)] (Some iobuf)
      else
        (let rx = [DBGC (RX_TID (hdr (data iobuf))), DBGC2_HDA (sizeof_mad env)];
             (dequeued, requests') =
                dequeue_request (host_endian env) (tid (hdr (data iobuf))) (requests gma);
             gma = gma\<lparr>requests := requests'\<rparr>;
             (rc, m) = ib_handle_mad env dev (data iobuf);
             handled = (if rc \<noteq> 0 then [DBGC (Could_not_handle (tid (hdr m)) rc)] else [])
         in if method (hdr m) = 0
            then out gma dest (rx @ dequeued @ handled) (Some (iobuf\<lparr>data := m\<rparr>))
            else
              (let evs = rx @ dequeued @ handled @
                         [DBGC (TX_TID (hdr m)), DBGC2_HDA (sizeof_mad env)]
               in if mgmt_class (hdr m) = IB_MGMT_CLASS_SUBN_DIRECTED_ROUTE env
                  then
                    (let m = m\<lparr>hdr := (hdr m)\<lparr>status := status (hdr m) OR
                                 htons (host_endian env) (IB_SMP_STATUS_D_INBOUND env)\<rparr>\<rparr>;
                         hop_pointer = unat (hop_pointer (hdr m));
                         hop_count = unat (hop_count (hdr m));
                         evs = evs @ assert (hop_count = hop_pointer)
                     in if hop_pointer < length (hops (return_path m))
                        then send_mad_response env gma dest
                               (iobuf\<lparr>data := m\<lparr>return_path := (return_path m)\<lparr>
                                  hops := (hops (return_path m))[hop_pointer := ucast (port dev)]\<rparr>\<rparr>\<rparr>)
                               evs send_rc
                        else out gma dest (evs @ [DBGC (Invalid_hop_pointer hop_pointer)])
                               (Some (iobuf\<lparr>data := m\<rparr>)))
                  else send_mad_response env gma dest (iobuf\<lparr>data := m\<rparr>) evs send_rc)))"

text \<open>\<^verbatim>\<open>ib_gma_complete_send ( ibdev, qp, iobuf, rc )\<close>\<close>

definition ib_gma_complete_send :: "io_buffer option \<Rightarrow> int \<Rightarrow> event list" where
  "ib_gma_complete_send iobuf rc =
     (if rc \<noteq> 0 then [DBGC (Send_completion_error rc)] else []) @ [Free_iob iobuf]"

section \<open>Request tracker\<close>

text \<open>
  \<^verbatim>\<open>ib_gma_timer_expired ( timer, expired )\<close>. The timer is the one of the \<open>i\<close>-th
  outstanding request of the agent (\<^verbatim>\<open>container_of\<close>, then \<^verbatim>\<open>request->gma\<close>); a timer of
  no outstanding request has no meaning in C and gives \<open>None\<close>. \<open>failure\<close> is the
  parameter \<^verbatim>\<open>expired\<close>, \<open>alloc_ok\<close> tells whether \<^verbatim>\<open>alloc_iob\<close> returns a buffer, and
  \<open>send_rc\<close> is what \<^verbatim>\<open>ib_post_send\<close> returns.
\<close>

definition ib_gma_timer_expired ::
  "ib_env \<Rightarrow> ib_gma \<Rightarrow> nat \<Rightarrow> int \<Rightarrow> bool \<Rightarrow> int \<Rightarrow> (ib_gma \<times> event list) option" where
  "ib_gma_timer_expired env gma i failure alloc_ok send_rc =
     (if length (requests gma) \<le> i then None
      else
        (let request = requests gma ! i
         in if failure \<noteq> 0
            then Some (gma\<lparr>requests := take i (requests gma) @ drop (Suc i) (requests gma)\<rparr>,
                       [DBGC (Abandoning_TID (tid (hdr (mad request)))),
                        List_del request, Free request])
            else
              (let evs = [DBGC (TX_TID (hdr (mad request))), DBGC2_HDA (sizeof_mad env),
                          Start_timer request];
                   request = request\<lparr>timer := start_timer (timer request)\<rparr>;
                   gma = gma\<lparr>requests := (requests gma)[i := request]\<rparr>
               in if \<not> alloc_ok
                  then Some (gma, evs @ [Alloc_iob (sizeof_mad env) False,
                               DBGC (Could_not_allocate_buffer (tid (hdr (mad request))))])
                  else
                    (let iobuf = \<lparr>iob_len = sizeof_mad env, data = mad request\<rparr>;
                         evs = evs @ [Alloc_iob (sizeof_mad env) True,
                                      Ib_post_send (qp gma) (av request) (Some iobuf) send_rc]
                     in if send_rc \<noteq> 0
                        then Some (gma, evs @
                               [DBGC (Could_not_send_TID (tid (hdr (mad request))) send_rc),
                                Free_iob (Some iobuf)])
                        else Some (gma, evs)))))"

text \<open>
  The state \<^verbatim>\<open>ib_gma_request\<close> works on besides the agent: the file-static counter
  \<^verbatim>\<open>next_request_tid\<close> (an \<^verbatim>\<open>unsigned int\<close>), and the memory of the caller, where the
  arguments \<^verbatim>\<open>mad\<close> and \<^verbatim>\<open>av\<close> point.
\<close>

record program_state =
  next_request_tid :: u32
  mads :: "nat \<Rightarrow> ib_mad"
  avs :: "nat \<Rightarrow> ib_address_vector"

text \<open>The address vector of a request fresh from \<^verbatim>\<open>zalloc\<close>.\<close>

definition zero_av :: ib_address_vector where
  "zero_av = \<lparr>qpn = 0, qkey = 0, lid = 0, rate = 0, sl = 0, gid_present = 0,
              gid = replicate 16 0\<rparr>"

text \<open>
  \<^verbatim>\<open>ib_gma_request ( gma, mad, av )\<close>. \<open>mad_p\<close> is the pointer \<^verbatim>\<open>mad\<close>, \<open>av_p\<close> the
  pointer \<^verbatim>\<open>av\<close> (\<open>None\<close> for \<^verbatim>\<open>NULL\<close>), and \<open>zalloc_ok\<close> tells whether \<^verbatim>\<open>zalloc\<close>
  returns a request. The request is built in the order of the source: callback, address
  vector, copy of the MAD, transaction id, timer; \<^verbatim>\<open>list_add\<close> puts it at the head of the
  agent's list.
\<close>

definition ib_gma_request ::
  "ib_env \<Rightarrow> program_state \<Rightarrow> ib_gma \<Rightarrow> nat \<Rightarrow> nat option \<Rightarrow> bool \<Rightarrow>
     int \<times> program_state \<times> ib_gma \<times> event list" where
  "ib_gma_request env s gma mad_p av_p zalloc_ok =
     (if \<not> zalloc_ok
      then (- ENOMEM env, s, gma, [Zalloc False, DBGC Could_not_allocate_MAD_request])
      else
        (let request_timer = \<lparr>running = False, expired = Some Ib_gma_timer_expired\<rparr>;
             request_av = (case av_p of
                 Some p \<Rightarrow> avs s p
               | None \<Rightarrow> zero_av\<lparr>
                   lid := ucast (sm_lid (ibdev gma)),
                   sl := ucast (sm_sl (ibdev gma)),
                   qpn := IB_QPN_GMA env,
                   qkey := IB_QKEY_GMA env\<rparr>);
             request_mad = mads s mad_p;
             s = s\<lparr>next_request_tid := next_request_tid s + 1\<rparr>;
             request_mad = request_mad\<lparr>hdr := (hdr request_mad)\<lparr>
                 tid := (htonl (host_endian env) IB_GMA_TID_MAGIC,
                         htonl (host_endian env) (next_request_tid s))\<rparr>\<rparr>;
             request = \<lparr>timer = request_timer, av = request_av, mad = request_mad\<rparr>;
             evs = [Zalloc True, Start_timer_nodelay request];
             request = request\<lparr>timer := start_timer_nodelay (timer request)\<rparr>
         in (0, s, gma\<lparr>requests := request # requests gma\<rparr>, evs)))"

section \<open>Vocabulary of the properties\<close>

text \<open>
  A receive completion passes the checks at the head of \<^verbatim>\<open>ib_gma_complete_recv\<close>; a
  handler is registered for the 4-tuple of a header; and the events that concern a request
  record, an I/O buffer, a submission to the transport, or the debug log.
\<close>

definition validated :: "ib_env \<Rightarrow> io_buffer \<Rightarrow> int \<Rightarrow> bool" where
  "validated env iobuf rc \<longleftrightarrow>
     rc = 0 \<and> iob_len iobuf = sizeof_mad env \<and>
     base_version (hdr (data iobuf)) = IB_MGMT_BASE_VERSION env"

definition registered_for :: "ib_mad_handler \<Rightarrow> ib_mad_hdr \<Rightarrow> bool" where
  "registered_for handler h \<longleftrightarrow>
     h_mgmt_class handler = mgmt_class h \<and> h_class_version handler = class_version h \<and>
     h_method handler = method h \<and> h_attr_id handler = attr_id h"

fun on_request :: "event \<Rightarrow> bool" where
  "on_request (Stop_timer r) = True"
| "on_request (List_del r) = True"
| "on_request (Free r) = True"
| "on_request _ = False"

fun on_buffer :: "event \<Rightarrow> bool" where
  "on_buffer (Alloc_iob n ok) = True"
| "on_buffer (Ib_post_send q a b rc) = True"
| "on_buffer (Free_iob b) = True"
| "on_buffer _ = False"

fun is_post_send :: "event \<Rightarrow> bool" where
  "is_post_send (Ib_post_send q a b rc) = True"
| "is_post_send _ = False"

fun is_dbg :: "event \<Rightarrow> bool" where
  "is_dbg (DBGC d) = True"
| "is_dbg (DBGC_HDA n) = True"
| "is_dbg (DBGC2_HDA n) = True"
| "is_dbg _ = False"

text \<open>
  The parts of what \<open>ib_gma_request\<close> returns: the state and the agent after the call,
  and the transaction id of the request at the head of the agent's list.
\<close>

definition state_after :: "int \<times> program_state \<times> ib_gma \<times> event list \<Rightarrow> program_state" where
  "state_after res = fst (snd res)"

definition gma_after :: "int \<times> program_state \<times> ib_gma \<times> event list \<Rightarrow> ib_gma" where
  "gma_after res = fst (snd (snd res))"

definition issued_tid :: "int \<times> program_state \<times> ib_gma \<times> event list \<Rightarrow> u32 \<times> u32" where
  "issued_tid res = tid (hdr (mad (hd (requests (gma_after res)))))"

text \<open>
  A run of consecutive expiries of the timer of the \<open>i\<close>-th request, none of them the last
  one the timer subsystem grants (\<^verbatim>\<open>expired\<close> is 0). Each element of \<open>outcomes\<close> tells
  whether \<^verbatim>\<open>alloc_iob\<close> succeeds at that expiry and what \<^verbatim>\<open>ib_post_send\<close> returns.
\<close>

fun timer_expirations ::
  "ib_env \<Rightarrow> ib_gma \<Rightarrow> nat \<Rightarrow> (bool \<times> int) list \<Rightarrow> (ib_gma \<times> event list) option" where
  "timer_expirations env gma i [] = Some (gma, [])"
| "timer_expirations env gma i ((alloc_ok, send_rc) # outcomes) =
     (case ib_gma_timer_expired env gma i 0 alloc_ok send_rc of
        None \<Rightarrow> None
      | Some (gma', evs) \<Rightarrow>
          (case timer_expirations env gma' i outcomes of
             None \<Rightarrow> None
           | Some (gma'', evs') \<Rightarrow> Some (gma'', evs @ evs')))"

section \<open>Test vectors\<close>

text \<open>
  An environment with the values of the InfiniBand architecture (base version 1,
  directed-route class \<open>0x81\<close>, trap method \<open>0x05\<close>, status \<open>0x000c\<close>, direction bit
  \<open>0x8000\<close>, a 256-byte MAD with 64 hops) on a little-endian host, a one-entry handler
  table, and a directed-route \<^verbatim>\<open>Get(NodeInfo)\<close> whose transaction id is the magic word
  followed by the counter value 7.
\<close>

definition node_info_handler :: ib_mad_handler where
  "node_info_handler = \<lparr>h_mgmt_class = 0x81, h_class_version = 1, h_method = 0x01,
     h_attr_id = htons Little_endian 0x0011, resp_method = 0x81,
     handle = (\<lambda>dev m. (0, m\<lparr>smp_data := [ucast (port dev)]\<rparr>))\<rparr>"

definition gpxe_env :: ib_env where
  "gpxe_env = \<lparr>host_endian = Little_endian, sizeof_mad = 256,
     IB_MGMT_BASE_VERSION = 1, IB_MGMT_CLASS_SUBN_DIRECTED_ROUTE = 0x81,
     IB_MGMT_METHOD_TRAP = 0x05, IB_MGMT_STATUS_UNSUPPORTED_METHOD_ATTR = 0x000c,
     IB_SMP_STATUS_D_INBOUND = 0x8000, IB_QPN_SMA = 0, IB_QPN_GMA = 1,
     IB_QKEY_SMA = 0, IB_QKEY_GMA = 0x80010000, IB_RATE_2_5 = 2,
     ENOTSUP = 95, ENOMEM = 12, IB_MAD_HANDLERS = [node_info_handler]\<rparr>"

definition test_hdr :: ib_mad_hdr where
  "test_hdr = \<lparr>base_version = 1, mgmt_class = 0x81, class_version = 1, method = 0x01,
     status = 0, hop_pointer = 3, hop_count = 3, tid = (0x45585067, 0x07000000),
     attr_id = 0x1100, reserved = 0, attr_mod = 0\<rparr>"

definition test_mad :: ib_mad where
  "test_mad = \<lparr>hdr = test_hdr, smp_data = [], return_path = \<lparr>hops = replicate 64 0\<rparr>\<rparr>"

definition test_av :: ib_address_vector where
  "test_av = \<lparr>qpn = 0, qkey = 0, lid = 4, rate = 0, sl = 0, gid_present = 0,
     gid = replicate 16 0\<rparr>"

definition test_request :: ib_mad_request where
  "test_request = \<lparr>timer = \<lparr>running = True, expired = Some Ib_gma_timer_expired\<rparr>,
     av = test_av, mad = test_mad\<rparr>"

definition test_dev :: ib_device where
  "test_dev = \<lparr>port = 1, sm_lid = 2, sm_sl = 0\<rparr>"

definition test_gma :: ib_gma where
  "test_gma = \<lparr>ibdev = test_dev, cq = 0, qp = 1, requests = [test_request]\<rparr>"

definition test_iobuf :: io_buffer where
  "test_iobuf = \<lparr>iob_len = 256, data = test_mad\<rparr>"

definition low_word_only_iobuf :: io_buffer where
  "low_word_only_iobuf = test_iobuf\<lparr>data := test_mad\<lparr>hdr := test_hdr\<lparr>tid := (0x11111111, 0x07000000)\<rparr>\<rparr>\<rparr>"

definition short_iobuf :: io_buffer where
  "short_iobuf = test_iobuf\<lparr>iob_len := 24\<rparr>"

definition unregistered_mad :: ib_mad where
  "unregistered_mad = test_mad\<lparr>hdr := test_hdr\<lparr>mgmt_class := 0x01, method := 0x02\<rparr>\<rparr>"

definition unregistered_iobuf :: io_buffer where
  "unregistered_iobuf = \<lparr>iob_len = 256, data = unregistered_mad\<rparr>"

definition out_of_range_mad :: ib_mad where
  "out_of_range_mad = test_mad\<lparr>hdr := test_hdr\<lparr>method := 0x02, hop_pointer := 64, hop_count := 64\<rparr>\<rparr>"

definition out_of_range_iobuf :: io_buffer where
  "out_of_range_iobuf = \<lparr>iob_len = 256, data = out_of_range_mad\<rparr>"

definition test_state :: program_state where
  "test_state = \<lparr>next_request_tid = 7, mads = (\<lambda>p. test_mad), avs = (\<lambda>p. test_av)\<rparr>"

definition wrap_state :: program_state where
  "wrap_state = test_state\<lparr>next_request_tid := 0xFFFFFFFE\<rparr>"

definition idle_gma :: ib_gma where
  "idle_gma = test_gma\<lparr>requests := []\<rparr>"

section \<open>Byte order and comparison of transaction ids\<close>

lemmas fixtures = node_info_handler_def gpxe_env_def test_hdr_def test_mad_def test_av_def
  test_request_def test_dev_def test_gma_def test_iobuf_def

lemma be_word_bytes: "be_word (be_bytes w) = w"
proof (rule bit_word_eqI)
  fix n assume "n < LENGTH(32)"
  then consider "n < 8" | "8 \<le> n" "n < 16" | "16 \<le> n" "n < 24" | "24 \<le> n" "n < 32"
    by fastforce
  then show "bit (be_word (be_bytes w)) n = bit w n"
    by cases (auto simp: be_word_def be_bytes_def bit_simps)
qed

lemma be_bytes_word: "be_bytes (be_word [a, b, c, d]) = [a, b, c, d]"
  unfolding be_word_def be_bytes_def
  apply simp
  apply (intro conjI; rule bit_word_eqI)
  apply (auto simp: bit_simps dest: bit_imp_le_length)
  done

lemma be_bytes_eq_iff: "be_bytes v = be_bytes w \<longleftrightarrow> v = w"
  by (metis be_word_bytes)

lemma length_u32_bytes: "length (u32_bytes e w) = 4"
  by (cases e) (simp_all add: u32_bytes_def be_bytes_def)

lemma u32_bytes_eq_iff: "u32_bytes e v = u32_bytes e w \<longleftrightarrow> v = w"
  by (cases e) (simp_all add: u32_bytes_def be_bytes_eq_iff)

lemma u32_bytes_htonl: "u32_bytes e (htonl e x) = be_bytes x"
proof (cases e)
  case Little_endian
  have "rev (be_bytes x) = [ucast x, ucast (drop_bit 8 x), ucast (drop_bit 16 x), ucast (drop_bit 24 x)]"
    by (simp add: be_bytes_def)
  then have "be_bytes (bswap_32 x) = rev (be_bytes x)"
    by (simp add: bswap_32_def be_bytes_word)
  with Little_endian show ?thesis
    by (simp add: u32_bytes_def htonl_def)
next
  case Big_endian
  then show ?thesis by (simp add: u32_bytes_def htonl_def)
qed

lemma htonl_eq_iff: "htonl e x = htonl e y \<longleftrightarrow> x = y"
  by (metis u32_bytes_htonl be_bytes_eq_iff)

lemma memcmp_eq_0_iff:
  "n \<le> length xs \<Longrightarrow> n \<le> length ys \<Longrightarrow> memcmp xs ys n = 0 \<longleftrightarrow> take n xs = take n ys"
proof (induction xs ys n rule: memcmp.induct)
  case (1 x xs y ys n)
  have "int (unat x) - int (unat y) = 0 \<longleftrightarrow> unat x = unat y"
    by linarith
  then have "int (unat x) - int (unat y) = 0 \<longleftrightarrow> x = y"
    using word_unat_eq_iff [of x y] by blast
  with 1 show ?case by auto
qed simp_all

lemma length_tid_bytes: "length (tid_bytes e t) = 8"
  by (simp add: tid_bytes_def length_u32_bytes)

lemma tid_bytes_eq_iff: "tid_bytes e s = tid_bytes e t \<longleftrightarrow> s = t"
  by (auto simp: tid_bytes_def length_u32_bytes u32_bytes_eq_iff prod_eq_iff)

lemma memcmp_tid: "memcmp (tid_bytes e s) (tid_bytes e t) 8 = 0 \<longleftrightarrow> s = t"
  by (simp add: memcmp_eq_0_iff length_tid_bytes tid_bytes_eq_iff)

lemma dequeue_request_no_match:
  "\<forall>r \<in> set rs. tid (hdr (mad r)) \<noteq> t \<Longrightarrow> dequeue_request e t rs = ([], rs)"
  by (induction rs) (simp_all add: memcmp_tid)

lemma dequeue_request_first_match:
  "\<forall>x \<in> set pre. tid (hdr (mad x)) \<noteq> t \<Longrightarrow> tid (hdr (mad r)) = t \<Longrightarrow>
   dequeue_request e t (pre @ r # post) =
     ([Stop_timer r, List_del (r\<lparr>timer := stop_timer (timer r)\<rparr>),
       Free (r\<lparr>timer := stop_timer (timer r)\<rparr>)], pre @ post)"
  by (induction pre) (simp_all add: memcmp_tid)

section \<open>Dispatch to the handler registry\<close>

lemma for_each_handler_first:
  "\<forall>h \<in> set pre. \<not> registered_for h (hdr m) \<Longrightarrow> registered_for handler (hdr m) \<Longrightarrow>
   for_each_handler env (pre @ handler # post) dev m =
     handle handler dev (m\<lparr>hdr := (hdr m)\<lparr>method := resp_method handler\<rparr>\<rparr>)"
  by (induction pre) (auto simp: registered_for_def)

lemma for_each_handler_none:
  "\<forall>h \<in> set table. \<not> registered_for h (hdr m) \<Longrightarrow>
   for_each_handler env table dev m =
     (- ENOTSUP env,
      m\<lparr>hdr := (hdr m)\<lparr>method := IB_MGMT_METHOD_TRAP env,
        status := htons (host_endian env) (IB_MGMT_STATUS_UNSUPPORTED_METHOD_ATTR env)\<rparr>\<rparr>)"
  by (induction table) (auto simp: registered_for_def)

text \<open>
  Claim C3. For a MAD whose (management class, class version, method, attribute id)
  equals that of an entry of the handler table, \<open>ib_handle_mad\<close> overwrites the method of
  the header with the response method of that entry and returns what the handler of that
  entry makes of the message. The entry is the first one registered for the 4-tuple: no
  entry before it in the table matches (with one entry per 4-tuple, any matching entry).
\<close>

theorem ib_handle_mad_registered:
  assumes "IB_MAD_HANDLERS env = pre @ handler # post"
    and "\<forall>h \<in> set pre. \<not> registered_for h (hdr m)"
    and "registered_for handler (hdr m)"
  shows "ib_handle_mad env dev m =
           handle handler dev (m\<lparr>hdr := (hdr m)\<lparr>method := resp_method handler\<rparr>\<rparr>)"
  using assms by (simp add: ib_handle_mad_def for_each_handler_first)

theorem ib_handle_mad_registered_witness:
  "ib_handle_mad gpxe_env test_dev test_mad =
     (0, test_mad\<lparr>hdr := test_hdr\<lparr>method := 0x81\<rparr>, smp_data := [1]\<rparr>)"
  using ib_handle_mad_registered [of gpxe_env "[]" node_info_handler "[]" test_mad test_dev]
  by (simp add: fixtures registered_for_def htons_def bswap_16_def)

section \<open>Retiring the request an inbound MAD answers\<close>

lemma dequeue_request_events:
  "dequeue_request e t rs = (evs, rs') \<Longrightarrow> filter on_request evs = evs \<and> filter on_buffer evs = []"
  by (induction rs arbitrary: evs rs') (auto split: prod.splits if_splits)

lemma complete_recv_requests:
  assumes "validated env iobuf rc"
  shows "requests (c_gma (ib_gma_complete_recv env dev gma dest iobuf rc send_rc)) =
           snd (dequeue_request (host_endian env) (tid (hdr (data iobuf))) (requests gma))"
  using assms
  by (simp add: validated_def ib_gma_complete_recv_def send_mad_response_def out_def
        iob_disown_def assert_def Let_def split: prod.splits)

lemma complete_recv_on_request:
  assumes "validated env iobuf rc"
  shows "filter on_request (c_events (ib_gma_complete_recv env dev gma dest iobuf rc send_rc)) =
           fst (dequeue_request (host_endian env) (tid (hdr (data iobuf))) (requests gma))"
  using assms
  by (auto simp: validated_def ib_gma_complete_recv_def send_mad_response_def out_def
        iob_disown_def assert_def Let_def dequeue_request_events split: prod.splits)

text \<open>
  Claim C2. For a receive completion that passes validation: if the transaction id of the
  inbound MAD equals that of some outstanding request, exactly one such request (the first
  in list order) leaves the agent's list, the only events on request records are stopping
  its timer, unlinking it and freeing it, in this order, and the record freed has its
  timer stopped; if no outstanding request has that transaction id, the list is unchanged
  and no request record is touched.
\<close>

theorem complete_recv_retires_matching_request:
  assumes "validated env iobuf rc"
  shows "((\<exists>r \<in> set (requests gma). tid (hdr (mad r)) = tid (hdr (data iobuf))) \<longrightarrow>
            (\<exists>pre r post.
               requests gma = pre @ r # post \<and>
               (\<forall>x \<in> set pre. tid (hdr (mad x)) \<noteq> tid (hdr (data iobuf))) \<and>
               tid (hdr (mad r)) = tid (hdr (data iobuf)) \<and>
               requests (c_gma (ib_gma_complete_recv env dev gma dest iobuf rc send_rc)) = pre @ post \<and>
               filter on_request (c_events (ib_gma_complete_recv env dev gma dest iobuf rc send_rc)) =
                 [Stop_timer r,
                  List_del (r\<lparr>timer := stop_timer (timer r)\<rparr>),
                  Free (r\<lparr>timer := stop_timer (timer r)\<rparr>)] \<and>
               \<not> running (timer (r\<lparr>timer := stop_timer (timer r)\<rparr>)))) \<and>
         ((\<forall>r \<in> set (requests gma). tid (hdr (mad r)) \<noteq> tid (hdr (data iobuf))) \<longrightarrow>
            requests (c_gma (ib_gma_complete_recv env dev gma dest iobuf rc send_rc)) = requests gma \<and>
            filter on_request (c_events (ib_gma_complete_recv env dev gma dest iobuf rc send_rc)) = [])"
proof (intro conjI impI)
  assume "\<exists>r \<in> set (requests gma). tid (hdr (mad r)) = tid (hdr (data iobuf))"
  then obtain pre r post where s: "requests gma = pre @ r # post"
    "tid (hdr (mad r)) = tid (hdr (data iobuf))"
    "\<forall>x \<in> set pre. tid (hdr (mad x)) \<noteq> tid (hdr (data iobuf))"
    using split_list_first_prop [of "requests gma" "\<lambda>r. tid (hdr (mad r)) = tid (hdr (data iobuf))"]
    by blast
  then have d: "dequeue_request (host_endian env) (tid (hdr (data iobuf))) (requests gma) =
     ([Stop_timer r, List_del (r\<lparr>timer := stop_timer (timer r)\<rparr>),
       Free (r\<lparr>timer := stop_timer (timer r)\<rparr>)], pre @ post)"
    by (simp add: dequeue_request_first_match)
  have "requests (c_gma (ib_gma_complete_recv env dev gma dest iobuf rc send_rc)) = pre @ post"
    using assms d by (simp add: complete_recv_requests)
  moreover have "filter on_request (c_events (ib_gma_complete_recv env dev gma dest iobuf rc send_rc)) =
              [Stop_timer r,
               List_del (r\<lparr>timer := stop_timer (timer r)\<rparr>),
               Free (r\<lparr>timer := stop_timer (timer r)\<rparr>)]"
    using assms d by (simp add: complete_recv_on_request)
  moreover have "\<not> running (timer (r\<lparr>timer := stop_timer (timer r)\<rparr>))"
    by (simp add: stop_timer_def)
  ultimately show "\<exists>pre r post.
               requests gma = pre @ r # post \<and>
               (\<forall>x \<in> set pre. tid (hdr (mad x)) \<noteq> tid (hdr (data iobuf))) \<and>
               tid (hdr (mad r)) = tid (hdr (data iobuf)) \<and>
               requests (c_gma (ib_gma_complete_recv env dev gma dest iobuf rc send_rc)) = pre @ post \<and>
               filter on_request (c_events (ib_gma_complete_recv env dev gma dest iobuf rc send_rc)) =
                 [Stop_timer r,
                  List_del (r\<lparr>timer := stop_timer (timer r)\<rparr>),
                  Free (r\<lparr>timer := stop_timer (timer r)\<rparr>)] \<and>
               \<not> running (timer (r\<lparr>timer := stop_timer (timer r)\<rparr>))"
    using s by blast
next
  assume h: "\<forall>r \<in> set (requests gma). tid (hdr (mad r)) \<noteq> tid (hdr (data iobuf))"
  then have d: "dequeue_request (host_endian env) (tid (hdr (data iobuf))) (requests gma) =
     ([], requests gma)"
    by (simp add: dequeue_request_no_match)
  show "requests (c_gma (ib_gma_complete_recv env dev gma dest iobuf rc send_rc)) = requests gma"
    using assms d by (simp add: complete_recv_requests)
  show "filter on_request (c_events (ib_gma_complete_recv env dev gma dest iobuf rc send_rc)) = []"
    using assms d by (simp add: complete_recv_on_request)
qed

theorem complete_recv_retires_matching_request_witness:
  "validated gpxe_env test_iobuf 0 \<and>
   requests (c_gma (ib_gma_complete_recv gpxe_env test_dev test_gma test_av test_iobuf 0 0)) = [] \<and>
   filter on_request
     (c_events (ib_gma_complete_recv gpxe_env test_dev test_gma test_av test_iobuf 0 0)) =
     [Stop_timer test_request,
      List_del (test_request\<lparr>timer := stop_timer (timer test_request)\<rparr>),
      Free (test_request\<lparr>timer := stop_timer (timer test_request)\<rparr>)]"
proof -
  have v: "validated gpxe_env test_iobuf 0"
    by (simp add: validated_def fixtures)
  have m: "\<exists>r \<in> set (requests test_gma). tid (hdr (mad r)) = tid (hdr (data test_iobuf))"
    by (simp add: fixtures)
  have l: "pre = [] \<and> r = test_request \<and> post = []"
    if "requests test_gma = pre @ r # post" for pre r post
    using that by (simp add: test_gma_def Cons_eq_append_conv)
  from complete_recv_retires_matching_request [OF v, of test_gma test_dev test_av 0] m
  show ?thesis using v l by (metis append_Nil)
qed

section \<open>Completions that fail validation\<close>

text \<open>
  Claim C7. A receive completion whose status is an error, whose buffer does not have the
  size of a MAD, or whose header has another base version than the supported one, leaves
  the agent and the address vector as they were; its events are debug messages (at least
  one) followed by the release of the buffer, unchanged, so nothing is submitted to the
  transport and no request record is touched; the outcome is the same for every handler
  table. The function returns nothing, so no error reaches a caller.
\<close>

theorem invalid_completion_discarded:
  assumes "rc \<noteq> 0 \<or> iob_len iobuf \<noteq> sizeof_mad env \<or>
           base_version (hdr (data iobuf)) \<noteq> IB_MGMT_BASE_VERSION env"
  shows "c_gma (ib_gma_complete_recv env dev gma dest iobuf rc send_rc) = gma \<and>
         c_av (ib_gma_complete_recv env dev gma dest iobuf rc send_rc) = dest \<and>
         (\<exists>log. log \<noteq> [] \<and> list_all is_dbg log \<and>
            c_events (ib_gma_complete_recv env dev gma dest iobuf rc send_rc) =
              log @ [Free_iob (Some iobuf)]) \<and>
         ib_gma_complete_recv (env\<lparr>IB_MAD_HANDLERS := table\<rparr>) dev gma dest iobuf rc send_rc =
           ib_gma_complete_recv env dev gma dest iobuf rc send_rc"
proof -
  consider "rc \<noteq> 0"
    | "rc = 0" "iob_len iobuf \<noteq> sizeof_mad env"
    | "rc = 0" "iob_len iobuf = sizeof_mad env"
      "base_version (hdr (data iobuf)) \<noteq> IB_MGMT_BASE_VERSION env"
    using assms by blast
  then show ?thesis
  proof cases
    case 1
    then show ?thesis by (simp add: ib_gma_complete_recv_def out_def)
  next
    case 2
    then show ?thesis by (simp add: ib_gma_complete_recv_def out_def)
  next
    case 3
    then show ?thesis by (simp add: ib_gma_complete_recv_def out_def)
  qed
qed

theorem invalid_completion_discarded_witness:
  "iob_len short_iobuf \<noteq> sizeof_mad gpxe_env \<and>
   c_gma (ib_gma_complete_recv gpxe_env test_dev test_gma test_av short_iobuf 0 0) = test_gma \<and>
   c_events (ib_gma_complete_recv gpxe_env test_dev test_gma test_av short_iobuf 0 0) =
     [DBGC (RX_bad_size 24), DBGC_HDA 24, Free_iob (Some short_iobuf)]"
proof -
  have h: "iob_len short_iobuf \<noteq> sizeof_mad gpxe_env"
    by (simp add: short_iobuf_def fixtures)
  then have "(0::int) \<noteq> 0 \<or> iob_len short_iobuf \<noteq> sizeof_mad gpxe_env \<or>
      base_version (hdr (data short_iobuf)) \<noteq> IB_MGMT_BASE_VERSION gpxe_env"
    by simp
  from invalid_completion_discarded [OF this, of test_dev test_gma test_av 0 "[]"] h
  show ?thesis
    by (simp add: ib_gma_complete_recv_def out_def short_iobuf_def test_iobuf_def gpxe_env_def)
qed

section \<open>All eight bytes of the transaction id count\<close>

text \<open>
  Claim C10. On a validated completion, a request leaves the agent's list only if the
  eight bytes of its stored transaction id equal the eight bytes of the inbound one, that
  is, both the first (magic) word and the second (counter) word agree; when no outstanding
  request agrees with the inbound id in the first word, whatever the second, the list is
  unchanged and no request record is touched.
\<close>

theorem tid_match_compares_eight_bytes:
  assumes "validated env iobuf rc"
  shows "(requests (c_gma (ib_gma_complete_recv env dev gma dest iobuf rc send_rc)) \<noteq> requests gma \<longrightarrow>
           (\<exists>pre r post.
              requests gma = pre @ r # post \<and>
              requests (c_gma (ib_gma_complete_recv env dev gma dest iobuf rc send_rc)) = pre @ post \<and>
              length (tid_bytes (host_endian env) (tid (hdr (mad r)))) = 8 \<and>
              tid_bytes (host_endian env) (tid (hdr (mad r))) =
                tid_bytes (host_endian env) (tid (hdr (data iobuf))) \<and>
              fst (tid (hdr (mad r))) = fst (tid (hdr (data iobuf))) \<and>
              snd (tid (hdr (mad r))) = snd (tid (hdr (data iobuf))))) \<and>
         ((\<forall>r \<in> set (requests gma). fst (tid (hdr (mad r))) \<noteq> fst (tid (hdr (data iobuf)))) \<longrightarrow>
            requests (c_gma (ib_gma_complete_recv env dev gma dest iobuf rc send_rc)) = requests gma \<and>
            filter on_request (c_events (ib_gma_complete_recv env dev gma dest iobuf rc send_rc)) = [])"
proof (intro conjI impI)
  assume changed: "requests (c_gma (ib_gma_complete_recv env dev gma dest iobuf rc send_rc)) \<noteq> requests gma"
  have "\<exists>r \<in> set (requests gma). tid (hdr (mad r)) = tid (hdr (data iobuf))"
  proof (rule ccontr)
    assume "\<not> (\<exists>r \<in> set (requests gma). tid (hdr (mad r)) = tid (hdr (data iobuf)))"
    then have "dequeue_request (host_endian env) (tid (hdr (data iobuf))) (requests gma) =
        ([], requests gma)"
      by (simp add: dequeue_request_no_match)
    with assms changed show False by (simp add: complete_recv_requests)
  qed
  then obtain pre r post where s: "requests gma = pre @ r # post"
    "tid (hdr (mad r)) = tid (hdr (data iobuf))"
    "\<forall>x \<in> set pre. tid (hdr (mad x)) \<noteq> tid (hdr (data iobuf))"
    using split_list_first_prop [of "requests gma" "\<lambda>r. tid (hdr (mad r)) = tid (hdr (data iobuf))"]
    by blast
  then have "snd (dequeue_request (host_endian env) (tid (hdr (data iobuf))) (requests gma)) = pre @ post"
    by (simp add: dequeue_request_first_match)
  with assms have "requests (c_gma (ib_gma_complete_recv env dev gma dest iobuf rc send_rc)) = pre @ post"
    by (simp add: complete_recv_requests)
  with s show "\<exists>pre r post.
              requests gma = pre @ r # post \<and>
              requests (c_gma (ib_gma_complete_recv env dev gma dest iobuf rc send_rc)) = pre @ post \<and>
              length (tid_bytes (host_endian env) (tid (hdr (mad r)))) = 8 \<and>
              tid_bytes (host_endian env) (tid (hdr (mad r))) =
                tid_bytes (host_endian env) (tid (hdr (data iobuf))) \<and>
              fst (tid (hdr (mad r))) = fst (tid (hdr (data iobuf))) \<and>
              snd (tid (hdr (mad r))) = snd (tid (hdr (data iobuf)))"
    using length_tid_bytes by metis
next
  assume "\<forall>r \<in> set (requests gma). fst (tid (hdr (mad r))) \<noteq> fst (tid (hdr (data iobuf)))"
  then have "\<forall>r \<in> set (requests gma). tid (hdr (mad r)) \<noteq> tid (hdr (data iobuf))"
    by auto
  then have d: "dequeue_request (host_endian env) (tid (hdr (data iobuf))) (requests gma) =
      ([], requests gma)"
    by (simp add: dequeue_request_no_match)
  show "requests (c_gma (ib_gma_complete_recv env dev gma dest iobuf rc send_rc)) = requests gma"
    using assms d by (simp add: complete_recv_requests)
  show "filter on_request (c_events (ib_gma_complete_recv env dev gma dest iobuf rc send_rc)) = []"
    using assms d by (simp add: complete_recv_on_request)
qed

theorem tid_match_compares_eight_bytes_witness:
  "validated gpxe_env low_word_only_iobuf 0 \<and>
   snd (tid (hdr (mad test_request))) = snd (tid (hdr (data low_word_only_iobuf))) \<and>
   requests (c_gma (ib_gma_complete_recv gpxe_env test_dev test_gma test_av low_word_only_iobuf 0 0)) =
     [test_request]"
proof -
  have v: "validated gpxe_env low_word_only_iobuf 0"
    by (simp add: validated_def low_word_only_iobuf_def fixtures)
  have h: "\<forall>r \<in> set (requests test_gma).
      fst (tid (hdr (mad r))) \<noteq> fst (tid (hdr (data low_word_only_iobuf)))"
    by (simp add: low_word_only_iobuf_def fixtures)
  from tid_match_compares_eight_bytes [OF v, of test_dev test_gma test_av 0] h v
  show ?thesis by (simp add: low_word_only_iobuf_def fixtures)
qed

section \<open>What becomes of the receive buffer\<close>

lemma complete_recv_on_buffer:
  assumes "validated env iobuf rc" and "ib_handle_mad env dev (data iobuf) = (rc', m)"
  shows "filter on_buffer (c_events (ib_gma_complete_recv env dev gma dest iobuf rc send_rc)) =
    (if method (hdr m) = 0 then [Free_iob (Some (iobuf\<lparr>data := m\<rparr>))]
     else if mgmt_class (hdr m) = IB_MGMT_CLASS_SUBN_DIRECTED_ROUTE env then
       (if unat (hop_pointer (hdr m)) < length (hops (return_path m))
        then [Ib_post_send (qp gma)
                (dest\<lparr>qkey := (if qpn dest = IB_QPN_SMA env then IB_QKEY_SMA env else IB_QKEY_GMA env),
                      rate := IB_RATE_2_5 env\<rparr>)
                (Some (iobuf\<lparr>data := m\<lparr>
                   hdr := (hdr m)\<lparr>status := status (hdr m) OR
                            htons (host_endian env) (IB_SMP_STATUS_D_INBOUND env)\<rparr>,
                   return_path := (return_path m)\<lparr>hops := (hops (return_path m))
                            [unat (hop_pointer (hdr m)) := ucast (port dev)]\<rparr>\<rparr>\<rparr>))
                send_rc,
              Free_iob None]
        else [Free_iob (Some (iobuf\<lparr>data := m\<lparr>
                   hdr := (hdr m)\<lparr>status := status (hdr m) OR
                            htons (host_endian env) (IB_SMP_STATUS_D_INBOUND env)\<rparr>\<rparr>\<rparr>))])
     else [Ib_post_send (qp gma)
             (dest\<lparr>qkey := (if qpn dest = IB_QPN_SMA env then IB_QKEY_SMA env else IB_QKEY_GMA env),
                   rate := IB_RATE_2_5 env\<rparr>)
             (Some (iobuf\<lparr>data := m\<rparr>)) send_rc,
           Free_iob None])"
  using assms
  by (auto simp: validated_def ib_gma_complete_recv_def send_mad_response_def out_def
        iob_disown_def assert_def Let_def dequeue_request_events split: prod.splits)

text \<open>
  Claim C5. For a validated MAD that is to be answered (its method after dispatch is not
  zero) and is of the directed-route class after dispatch, the inbound-direction bit is
  set in the status. If the hop pointer is less than the number of elements of the
  return path, the buffer submitted to the transport carries the port of the device (as a
  byte) at that index of the return path, every other element and the length unchanged.
  Otherwise nothing is submitted and the buffer is released with the return path as the
  handler left it. The only access to the array is the guarded update, so no hop pointer
  reaches outside it.
\<close>

theorem directed_route_hop_pointer:
  assumes "validated env iobuf rc"
    and "ib_handle_mad env dev (data iobuf) = (rc', m)"
    and "method (hdr m) \<noteq> 0"
    and "mgmt_class (hdr m) = IB_MGMT_CLASS_SUBN_DIRECTED_ROUTE env"
  shows "(unat (hop_pointer (hdr m)) < length (hops (return_path m)) \<longrightarrow>
           filter on_buffer (c_events (ib_gma_complete_recv env dev gma dest iobuf rc send_rc)) =
             [Ib_post_send (qp gma)
                (dest\<lparr>qkey := (if qpn dest = IB_QPN_SMA env then IB_QKEY_SMA env else IB_QKEY_GMA env),
                      rate := IB_RATE_2_5 env\<rparr>)
                (Some (iobuf\<lparr>data := m\<lparr>
                   hdr := (hdr m)\<lparr>status := status (hdr m) OR
                            htons (host_endian env) (IB_SMP_STATUS_D_INBOUND env)\<rparr>,
                   return_path := (return_path m)\<lparr>hops := (hops (return_path m))
                            [unat (hop_pointer (hdr m)) := ucast (port dev)]\<rparr>\<rparr>\<rparr>))
                send_rc,
              Free_iob None] \<and>
           (hops (return_path m))[unat (hop_pointer (hdr m)) := ucast (port dev)] !
              unat (hop_pointer (hdr m)) = (ucast (port dev) :: u8) \<and>
           length ((hops (return_path m))[unat (hop_pointer (hdr m)) := ucast (port dev)]) =
             length (hops (return_path m)) \<and>
           (unat (port dev) < 256 \<longrightarrow> unat (ucast (port dev) :: u8) = unat (port dev))) \<and>
         (length (hops (return_path m)) \<le> unat (hop_pointer (hdr m)) \<longrightarrow>
           filter on_buffer (c_events (ib_gma_complete_recv env dev gma dest iobuf rc send_rc)) =
             [Free_iob (Some (iobuf\<lparr>data := m\<lparr>
                   hdr := (hdr m)\<lparr>status := status (hdr m) OR
                            htons (host_endian env) (IB_SMP_STATUS_D_INBOUND env)\<rparr>\<rparr>\<rparr>))]) \<and>
         (status (hdr m) OR htons (host_endian env) (IB_SMP_STATUS_D_INBOUND env)) AND
            htons (host_endian env) (IB_SMP_STATUS_D_INBOUND env) =
            htons (host_endian env) (IB_SMP_STATUS_D_INBOUND env)"
proof (intro conjI impI)
  assume "unat (hop_pointer (hdr m)) < length (hops (return_path m))"
  then show "filter on_buffer (c_events (ib_gma_complete_recv env dev gma dest iobuf rc send_rc)) =
             [Ib_post_send (qp gma)
                (dest\<lparr>qkey := (if qpn dest = IB_QPN_SMA env then IB_QKEY_SMA env else IB_QKEY_GMA env),
                      rate := IB_RATE_2_5 env\<rparr>)
                (Some (iobuf\<lparr>data := m\<lparr>
                   hdr := (hdr m)\<lparr>status := status (hdr m) OR
                            htons (host_endian env) (IB_SMP_STATUS_D_INBOUND env)\<rparr>,
                   return_path := (return_path m)\<lparr>hops := (hops (return_path m))
                            [unat (hop_pointer (hdr m)) := ucast (port dev)]\<rparr>\<rparr>\<rparr>))
                send_rc,
              Free_iob None]"
    using assms by (simp add: complete_recv_on_buffer)
next
  assume "unat (hop_pointer (hdr m)) < length (hops (return_path m))"
  then show "(hops (return_path m))[unat (hop_pointer (hdr m)) := ucast (port dev)] !
              unat (hop_pointer (hdr m)) = (ucast (port dev) :: u8)"
    by simp
next
  show "length ((hops (return_path m))[unat (hop_pointer (hdr m)) := ucast (port dev)]) =
             length (hops (return_path m))"
    by simp
next
  assume "unat (port dev) < 256"
  then show "unat (ucast (port dev) :: u8) = unat (port dev)"
    by (simp add: unsigned_ucast_eq take_bit_nat_eq_self)
next
  assume "length (hops (return_path m)) \<le> unat (hop_pointer (hdr m))"
  then show "filter on_buffer (c_events (ib_gma_complete_recv env dev gma dest iobuf rc send_rc)) =
             [Free_iob (Some (iobuf\<lparr>data := m\<lparr>
                   hdr := (hdr m)\<lparr>status := status (hdr m) OR
                            htons (host_endian env) (IB_SMP_STATUS_D_INBOUND env)\<rparr>\<rparr>\<rparr>))]"
    using assms by (simp add: complete_recv_on_buffer)
next
  show "(status (hdr m) OR htons (host_endian env) (IB_SMP_STATUS_D_INBOUND env)) AND
            htons (host_endian env) (IB_SMP_STATUS_D_INBOUND env) =
            htons (host_endian env) (IB_SMP_STATUS_D_INBOUND env)"
    by (simp add: word_ao_absorbs)
qed

theorem directed_route_hop_pointer_witness:
  "validated gpxe_env test_iobuf 0 \<and>
   unat (hop_pointer (hdr test_mad)) = 3 \<and> length (hops (return_path test_mad)) = 64 \<and>
   filter on_buffer (c_events (ib_gma_complete_recv gpxe_env test_dev test_gma test_av test_iobuf 0 0)) =
     [Ib_post_send 1 (test_av\<lparr>qkey := 0, rate := 2\<rparr>)
        (Some \<lparr>iob_len = 256,
               data = \<lparr>hdr = test_hdr\<lparr>method := 0x81, status := 0x0080\<rparr>, smp_data = [1],
                        return_path = \<lparr>hops = (replicate 64 0)[3 := 1]\<rparr>\<rparr>\<rparr>) 0,
      Free_iob None]"
proof -
  let ?m = "test_mad\<lparr>hdr := test_hdr\<lparr>method := 0x81\<rparr>, smp_data := [1]\<rparr>"
  have v: "validated gpxe_env test_iobuf 0"
    by (simp add: validated_def fixtures)
  have h: "ib_handle_mad gpxe_env test_dev (data test_iobuf) = (0, ?m)"
    by (simp add: ib_handle_mad_def fixtures htons_def bswap_16_def)
  have m: "method (hdr ?m) \<noteq> 0" by simp
  have c: "mgmt_class (hdr ?m) = IB_MGMT_CLASS_SUBN_DIRECTED_ROUTE gpxe_env"
    by (simp add: fixtures)
  have b: "unat (hop_pointer (hdr ?m)) < length (hops (return_path ?m))"
    by (simp add: fixtures)
  from directed_route_hop_pointer [OF v h m c, of test_gma test_av 0] b v
  show ?thesis
    by (simp add: fixtures htons_def bswap_16_def)
qed

section \<open>MADs no handler is registered for\<close>

lemma ib_handle_mad_none:
  "\<forall>h \<in> set (IB_MAD_HANDLERS env). \<not> registered_for h (hdr m) \<Longrightarrow>
   ib_handle_mad env dev m =
     (- ENOTSUP env,
      m\<lparr>hdr := (hdr m)\<lparr>method := IB_MGMT_METHOD_TRAP env,
        status := htons (host_endian env) (IB_MGMT_STATUS_UNSUPPORTED_METHOD_ATTR env)\<rparr>\<rparr>)"
  by (simp add: ib_handle_mad_def for_each_handler_none)

text \<open>
  Claim C4 as stated promises a transmitted response for every validated MAD no handler
  is registered for. A directed-route \<^verbatim>\<open>Set\<close> with hop pointer 64 in a 64-element return
  path passes validation, matches no entry, and nothing is submitted to the transport.
\<close>

theorem unregistered_mad_not_always_answered:
  "validated gpxe_env out_of_range_iobuf 0 \<and>
   IB_MAD_HANDLERS gpxe_env = [node_info_handler] \<and>
   \<not> registered_for node_info_handler (hdr (data out_of_range_iobuf)) \<and>
   filter is_post_send
     (c_events (ib_gma_complete_recv gpxe_env test_dev test_gma test_av out_of_range_iobuf 0 0)) = []"
  by (simp add: validated_def registered_for_def ib_gma_complete_recv_def ib_handle_mad_def
        out_def assert_def Let_def memcmp_tid out_of_range_iobuf_def out_of_range_mad_def fixtures)

text \<open>
  Claim C4, amended. For a validated MAD whose 4-tuple matches no entry of the handler
  table, dispatch returns \<^verbatim>\<open>-ENOTSUP\<close> and sets the method to the trap method and the
  status to the unsupported-method/attribute code in network byte order. Provided the
  trap method is not the zero method, processing goes on to the response: the buffer with
  that header is submitted to the transport, for a directed-route MAD with the
  inbound-direction bit added to the status and the port entered in the return path,
  except for a directed-route MAD whose hop pointer is out of range, which is released
  without being sent.
\<close>

theorem unregistered_mad_trap_response:
  assumes "validated env iobuf rc"
    and "\<forall>h \<in> set (IB_MAD_HANDLERS env). \<not> registered_for h (hdr (data iobuf))"
    and "IB_MGMT_METHOD_TRAP env \<noteq> 0"
  shows "ib_handle_mad env dev (data iobuf) =
           (- ENOTSUP env,
            (data iobuf)\<lparr>hdr := (hdr (data iobuf))\<lparr>method := IB_MGMT_METHOD_TRAP env,
               status := htons (host_endian env) (IB_MGMT_STATUS_UNSUPPORTED_METHOD_ATTR env)\<rparr>\<rparr>) \<and>
         (mgmt_class (hdr (data iobuf)) \<noteq> IB_MGMT_CLASS_SUBN_DIRECTED_ROUTE env \<longrightarrow>
            filter on_buffer (c_events (ib_gma_complete_recv env dev gma dest iobuf rc send_rc)) =
              [Ib_post_send (qp gma)
                 (dest\<lparr>qkey := (if qpn dest = IB_QPN_SMA env then IB_QKEY_SMA env else IB_QKEY_GMA env),
                       rate := IB_RATE_2_5 env\<rparr>)
                 (Some (iobuf\<lparr>data := (data iobuf)\<lparr>hdr := (hdr (data iobuf))\<lparr>
                    method := IB_MGMT_METHOD_TRAP env,
                    status := htons (host_endian env) (IB_MGMT_STATUS_UNSUPPORTED_METHOD_ATTR env)\<rparr>\<rparr>\<rparr>))
                 send_rc,
               Free_iob None]) \<and>
         (mgmt_class (hdr (data iobuf)) = IB_MGMT_CLASS_SUBN_DIRECTED_ROUTE env \<and>
          unat (hop_pointer (hdr (data iobuf))) < length (hops (return_path (data iobuf))) \<longrightarrow>
            filter on_buffer (c_events (ib_gma_complete_recv env dev gma dest iobuf rc send_rc)) =
              [Ib_post_send (qp gma)
                 (dest\<lparr>qkey := (if qpn dest = IB_QPN_SMA env then IB_QKEY_SMA env else IB_QKEY_GMA env),
                       rate := IB_RATE_2_5 env\<rparr>)
                 (Some (iobuf\<lparr>data := (data iobuf)\<lparr>
                    hdr := (hdr (data iobuf))\<lparr>
                      method := IB_MGMT_METHOD_TRAP env,
                      status := htons (host_endian env) (IB_MGMT_STATUS_UNSUPPORTED_METHOD_ATTR env) OR
                                htons (host_endian env) (IB_SMP_STATUS_D_INBOUND env)\<rparr>,
                    return_path := (return_path (data iobuf))\<lparr>hops := (hops (return_path (data iobuf)))
                      [unat (hop_pointer (hdr (data iobuf))) := ucast (port dev)]\<rparr>\<rparr>\<rparr>))
                 send_rc,
               Free_iob None]) \<and>
         (mgmt_class (hdr (data iobuf)) = IB_MGMT_CLASS_SUBN_DIRECTED_ROUTE env \<and>
          length (hops (return_path (data iobuf))) \<le> unat (hop_pointer (hdr (data iobuf))) \<longrightarrow>
            filter on_buffer (c_events (ib_gma_complete_recv env dev gma dest iobuf rc send_rc)) =
              [Free_iob (Some (iobuf\<lparr>data := (data iobuf)\<lparr>
                    hdr := (hdr (data iobuf))\<lparr>
                      method := IB_MGMT_METHOD_TRAP env,
                      status := htons (host_endian env) (IB_MGMT_STATUS_UNSUPPORTED_METHOD_ATTR env) OR
                                htons (host_endian env) (IB_SMP_STATUS_D_INBOUND env)\<rparr>\<rparr>\<rparr>))])"
proof -
  let ?m = "(data iobuf)\<lparr>hdr := (hdr (data iobuf))\<lparr>method := IB_MGMT_METHOD_TRAP env,
               status := htons (host_endian env) (IB_MGMT_STATUS_UNSUPPORTED_METHOD_ATTR env)\<rparr>\<rparr>"
  have h: "ib_handle_mad env dev (data iobuf) = (- ENOTSUP env, ?m)"
    using assms(2) by (rule ib_handle_mad_none)
  have b: "filter on_buffer (c_events (ib_gma_complete_recv env dev gma dest iobuf rc send_rc)) =
    (if method (hdr ?m) = 0 then [Free_iob (Some (iobuf\<lparr>data := ?m\<rparr>))]
     else if mgmt_class (hdr ?m) = IB_MGMT_CLASS_SUBN_DIRECTED_ROUTE env then
       (if unat (hop_pointer (hdr ?m)) < length (hops (return_path ?m))
        then [Ib_post_send (qp gma)
                (dest\<lparr>qkey := (if qpn dest = IB_QPN_SMA env then IB_QKEY_SMA env else IB_QKEY_GMA env),
                      rate := IB_RATE_2_5 env\<rparr>)
                (Some (iobuf\<lparr>data := ?m\<lparr>
                   hdr := (hdr ?m)\<lparr>status := status (hdr ?m) OR
                            htons (host_endian env) (IB_SMP_STATUS_D_INBOUND env)\<rparr>,
                   return_path := (return_path ?m)\<lparr>hops := (hops (return_path ?m))
                            [unat (hop_pointer (hdr ?m)) := ucast (port dev)]\<rparr>\<rparr>\<rparr>))
                send_rc,
              Free_iob None]
        else [Free_iob (Some (iobuf\<lparr>data := ?m\<lparr>
                   hdr := (hdr ?m)\<lparr>status := status (hdr ?m) OR
                            htons (host_endian env) (IB_SMP_STATUS_D_INBOUND env)\<rparr>\<rparr>\<rparr>))])
     else [Ib_post_send (qp gma)
             (dest\<lparr>qkey := (if qpn dest = IB_QPN_SMA env then IB_QKEY_SMA env else IB_QKEY_GMA env),
                   rate := IB_RATE_2_5 env\<rparr>)
             (Some (iobuf\<lparr>data := ?m\<rparr>)) send_rc,
           Free_iob None])"
    using assms(1) h by (rule complete_recv_on_buffer)
  show ?thesis
    using h b assms(3) by simp
qed

theorem unregistered_mad_trap_response_witness:
  "validated gpxe_env unregistered_iobuf 0 \<and>
   IB_MGMT_METHOD_TRAP gpxe_env \<noteq> 0 \<and>
   ib_handle_mad gpxe_env test_dev unregistered_mad =
     (- 95, unregistered_mad\<lparr>hdr := (hdr unregistered_mad)\<lparr>method := 0x05, status := 0x0c00\<rparr>\<rparr>) \<and>
   filter on_buffer
     (c_events (ib_gma_complete_recv gpxe_env test_dev test_gma test_av unregistered_iobuf 0 0)) =
     [Ib_post_send 1 (test_av\<lparr>qkey := 0, rate := 2\<rparr>)
        (Some \<lparr>iob_len = 256,
               data = unregistered_mad\<lparr>hdr := (hdr unregistered_mad)\<lparr>
                        method := 0x05, status := 0x0c00\<rparr>\<rparr>\<rparr>) 0,
      Free_iob None]"
proof -
  have v: "validated gpxe_env unregistered_iobuf 0"
    by (simp add: validated_def unregistered_iobuf_def unregistered_mad_def fixtures)
  have u: "\<forall>h \<in> set (IB_MAD_HANDLERS gpxe_env). \<not> registered_for h (hdr (data unregistered_iobuf))"
    by (simp add: registered_for_def unregistered_iobuf_def unregistered_mad_def fixtures)
  have t: "IB_MGMT_METHOD_TRAP gpxe_env \<noteq> 0"
    by (simp add: gpxe_env_def)
  have c: "mgmt_class (hdr (data unregistered_iobuf)) \<noteq> IB_MGMT_CLASS_SUBN_DIRECTED_ROUTE gpxe_env"
    by (simp add: unregistered_iobuf_def unregistered_mad_def fixtures)
  from unregistered_mad_trap_response [OF v u t, of test_dev test_gma test_av 0] c v t
  show ?thesis
    by (simp add: unregistered_iobuf_def gpxe_env_def test_gma_def test_av_def htons_def bswap_16_def)
qed

section \<open>A response the transport rejects\<close>

text \<open>
  Claim C6. The response path hands the buffer over with \<^verbatim>\<open>iob_disown\<close>, which empties
  the variable \<^verbatim>\<open>iobuf\<close>. When \<^verbatim>\<open>ib_post_send\<close> fails, the failure is logged and no second
  submission follows, but \<^verbatim>\<open>free_iob\<close> at \<^verbatim>\<open>out:\<close> receives \<^verbatim>\<open>NULL\<close>: the buffer is not
  released. The retransmission path of \<open>ib_gma_timer_expired\<close>, on the same failure,
  releases the buffer it had allocated.
\<close>

theorem response_send_failure_leaks_buffer:
  "filter on_buffer
     (c_events (ib_gma_complete_recv gpxe_env test_dev test_gma test_av unregistered_iobuf 0 (- 1))) =
     [Ib_post_send 1 (test_av\<lparr>qkey := 0, rate := 2\<rparr>)
        (Some \<lparr>iob_len = 256,
               data = unregistered_mad\<lparr>hdr := (hdr unregistered_mad)\<lparr>
                        method := 0x05, status := 0x0c00\<rparr>\<rparr>\<rparr>) (- 1),
      Free_iob None] \<and>
   last (c_events (ib_gma_complete_recv gpxe_env test_dev test_gma test_av unregistered_iobuf 0 (- 1))) =
     Free_iob None \<and>
   map_option (filter on_buffer \<circ> snd) (ib_gma_timer_expired gpxe_env test_gma 0 0 True (- 1)) =
     Some [Alloc_iob 256 True,
           Ib_post_send 1 test_av (Some \<lparr>iob_len = 256, data = test_mad\<rparr>) (- 1),
           Free_iob (Some \<lparr>iob_len = 256, data = test_mad\<rparr>)]"
  by (simp add: ib_gma_complete_recv_def ib_handle_mad_def send_mad_response_def iob_disown_def
        out_def assert_def Let_def memcmp_tid ib_gma_timer_expired_def start_timer_def
        unregistered_iobuf_def unregistered_mad_def fixtures htons_def bswap_16_def)

section \<open>Expiry of a retry timer\<close>

lemma timer_expired_abandon:
  assumes "i < length (requests gma)" and "failure \<noteq> 0"
  shows "\<exists>evs. ib_gma_timer_expired env gma i failure alloc_ok send_rc =
            Some (gma\<lparr>requests := take i (requests gma) @ drop (Suc i) (requests gma)\<rparr>, evs) \<and>
          filter on_request evs = [List_del (requests gma ! i), Free (requests gma ! i)] \<and>
          filter on_buffer evs = []"
  using assms by (simp add: ib_gma_timer_expired_def Let_def)

lemma timer_expired_rearm:
  assumes "i < length (requests gma)"
  shows "\<exists>evs. ib_gma_timer_expired env gma i 0 alloc_ok send_rc =
            Some (gma\<lparr>requests := (requests gma)
                    [i := (requests gma ! i)\<lparr>timer := start_timer (timer (requests gma ! i))\<rparr>]\<rparr>, evs) \<and>
          filter on_request evs = [] \<and>
          filter is_post_send evs =
            (if alloc_ok
             then [Ib_post_send (qp gma) (av (requests gma ! i))
                     (Some \<lparr>iob_len = sizeof_mad env, data = mad (requests gma ! i)\<rparr>) send_rc]
             else [])"
  using assms by (simp add: ib_gma_timer_expired_def Let_def)

lemma timer_expirations_run:
  assumes "i < length (requests gma)"
  shows "\<exists>evs. timer_expirations env gma i outcomes =
            Some (gma\<lparr>requests :=
                    (if outcomes = [] then requests gma
                     else (requests gma)
                       [i := (requests gma ! i)\<lparr>timer := start_timer (timer (requests gma ! i))\<rparr>])\<rparr>,
                  evs) \<and>
          filter on_request evs = [] \<and>
          filter is_post_send evs =
            map (\<lambda>outcome. Ib_post_send (qp gma) (av (requests gma ! i))
                   (Some \<lparr>iob_len = sizeof_mad env, data = mad (requests gma ! i)\<rparr>) (snd outcome))
              (filter fst outcomes)"
  using assms
proof (induction outcomes arbitrary: gma)
  case Nil
  then show ?case by simp
next
  case (Cons outcome outcomes)
  obtain alloc_ok send_rc where o: "outcome = (alloc_ok, send_rc)"
    by (cases outcome)
  let ?r = "(requests gma ! i)\<lparr>timer := start_timer (timer (requests gma ! i))\<rparr>"
  let ?gma = "gma\<lparr>requests := (requests gma)[i := ?r]\<rparr>"
  from timer_expired_rearm [OF Cons.prems, of env alloc_ok send_rc]
  obtain evs where step: "ib_gma_timer_expired env gma i 0 alloc_ok send_rc = Some (?gma, evs)"
    "filter on_request evs = []"
    "filter is_post_send evs =
       (if alloc_ok
        then [Ib_post_send (qp gma) (av (requests gma ! i))
                (Some \<lparr>iob_len = sizeof_mad env, data = mad (requests gma ! i)\<rparr>) send_rc]
        else [])"
    by blast
  have len: "i < length (requests ?gma)"
    using Cons.prems by simp
  have same: "requests ?gma ! i = ?r"
    using Cons.prems by simp
  from Cons.IH [OF len]
  obtain evs' where rest: "timer_expirations env ?gma i outcomes =
      Some (?gma\<lparr>requests :=
              (if outcomes = [] then requests ?gma
               else (requests ?gma)
                 [i := (requests ?gma ! i)\<lparr>timer := start_timer (timer (requests ?gma ! i))\<rparr>])\<rparr>,
            evs')"
    "filter on_request evs' = []"
    "filter is_post_send evs' =
       map (\<lambda>outcome. Ib_post_send (qp ?gma) (av (requests ?gma ! i))
              (Some \<lparr>iob_len = sizeof_mad env, data = mad (requests ?gma ! i)\<rparr>) (snd outcome))
         (filter fst outcomes)"
    by blast
  have final: "?gma\<lparr>requests :=
              (if outcomes = [] then requests ?gma
               else (requests ?gma)
                 [i := (requests ?gma ! i)\<lparr>timer := start_timer (timer (requests ?gma ! i))\<rparr>])\<rparr> = ?gma"
    using Cons.prems by (simp add: start_timer_def)
  have run: "timer_expirations env ?gma i outcomes = Some (?gma, evs')"
    using rest(1) final by simp
  have posts: "filter is_post_send evs' =
       map (\<lambda>outcome. Ib_post_send (qp gma) (av (requests gma ! i))
              (Some \<lparr>iob_len = sizeof_mad env, data = mad (requests gma ! i)\<rparr>) (snd outcome))
         (filter fst outcomes)"
    using rest(3) Cons.prems by simp
  have "timer_expirations env gma i (outcome # outcomes) = Some (?gma, evs @ evs')"
    using step(1) run by (simp add: o)
  moreover have "filter on_request (evs @ evs') = []"
    using step(2) rest(2) by simp
  moreover have "filter is_post_send (evs @ evs') =
       map (\<lambda>outcome. Ib_post_send (qp gma) (av (requests gma ! i))
              (Some \<lparr>iob_len = sizeof_mad env, data = mad (requests gma ! i)\<rparr>) (snd outcome))
         (filter fst (outcome # outcomes))"
    using step(3) posts by (simp add: o)
  ultimately show ?case
    by simp
qed

text \<open>
  Claim C1. For the \<open>i\<close>-th outstanding request of an agent: when the timer reports
  failure, the request is unlinked and freed, it leaves the agent's list, and no buffer is
  allocated or submitted. Otherwise the timer is started again and the request stays in
  the list at its place, whatever \<^verbatim>\<open>alloc_iob\<close> and \<^verbatim>\<open>ib_post_send\<close> return; when the
  buffer can be allocated, exactly one buffer, holding a copy of the stored MAD, is
  submitted to the stored address vector, and when it cannot, nothing is submitted. Over
  a run of such expiries the submissions are one per expiry whose allocation succeeded,
  all with the same MAD and the same address vector, so \<open>N\<close> expiries whose allocations
  succeed give \<open>N\<close> identical submissions; the request is still outstanding, its timer
  armed.
\<close>

theorem timer_expired_retransmits:
  assumes "i < length (requests gma)"
  shows "(failure \<noteq> 0 \<longrightarrow>
           (\<exists>evs. ib_gma_timer_expired env gma i failure alloc_ok send_rc =
              Some (gma\<lparr>requests := take i (requests gma) @ drop (Suc i) (requests gma)\<rparr>, evs) \<and>
            filter on_request evs = [List_del (requests gma ! i), Free (requests gma ! i)] \<and>
            filter on_buffer evs = [])) \<and>
         (\<exists>evs. ib_gma_timer_expired env gma i 0 alloc_ok send_rc =
            Some (gma\<lparr>requests := (requests gma)
                    [i := (requests gma ! i)\<lparr>timer := start_timer (timer (requests gma ! i))\<rparr>]\<rparr>, evs) \<and>
          filter on_request evs = [] \<and>
          filter is_post_send evs =
            (if alloc_ok
             then [Ib_post_send (qp gma) (av (requests gma ! i))
                     (Some \<lparr>iob_len = sizeof_mad env, data = mad (requests gma ! i)\<rparr>) send_rc]
             else [])) \<and>
         running (start_timer (timer (requests gma ! i))) \<and>
         (\<exists>evs. timer_expirations env gma i outcomes =
            Some (gma\<lparr>requests :=
                    (if outcomes = [] then requests gma
                     else (requests gma)
                       [i := (requests gma ! i)\<lparr>timer := start_timer (timer (requests gma ! i))\<rparr>])\<rparr>,
                  evs) \<and>
          filter on_request evs = [] \<and>
          filter is_post_send evs =
            map (\<lambda>outcome. Ib_post_send (qp gma) (av (requests gma ! i))
                   (Some \<lparr>iob_len = sizeof_mad env, data = mad (requests gma ! i)\<rparr>) (snd outcome))
              (filter fst outcomes) \<and>
          (list_all fst outcomes \<longrightarrow> length (filter is_post_send evs) = length outcomes))"
proof (intro conjI impI)
  assume "failure \<noteq> 0"
  with assms show "\<exists>evs. ib_gma_timer_expired env gma i failure alloc_ok send_rc =
              Some (gma\<lparr>requests := take i (requests gma) @ drop (Suc i) (requests gma)\<rparr>, evs) \<and>
            filter on_request evs = [List_del (requests gma ! i), Free (requests gma ! i)] \<and>
            filter on_buffer evs = []"
    by (rule timer_expired_abandon)
next
  from assms show "\<exists>evs. ib_gma_timer_expired env gma i 0 alloc_ok send_rc =
            Some (gma\<lparr>requests := (requests gma)
                    [i := (requests gma ! i)\<lparr>timer := start_timer (timer (requests gma ! i))\<rparr>]\<rparr>, evs) \<and>
          filter on_request evs = [] \<and>
          filter is_post_send evs =
            (if alloc_ok
             then [Ib_post_send (qp gma) (av (requests gma ! i))
                     (Some \<lparr>iob_len = sizeof_mad env, data = mad (requests gma ! i)\<rparr>) send_rc]
             else [])"
    by (rule timer_expired_rearm)
next
  show "running (start_timer (timer (requests gma ! i)))"
    by (simp add: start_timer_def)
next
  from timer_expirations_run [OF assms, of env outcomes]
  obtain evs where run: "timer_expirations env gma i outcomes =
            Some (gma\<lparr>requests :=
                    (if outcomes = [] then requests gma
                     else (requests gma)
                       [i := (requests gma ! i)\<lparr>timer := start_timer (timer (requests gma ! i))\<rparr>])\<rparr>,
                  evs)"
    "filter on_request evs = []"
    "filter is_post_send evs =
            map (\<lambda>outcome. Ib_post_send (qp gma) (av (requests gma ! i))
                   (Some \<lparr>iob_len = sizeof_mad env, data = mad (requests gma ! i)\<rparr>) (snd outcome))
              (filter fst outcomes)"
    by blast
  have "list_all fst outcomes \<longrightarrow> length (filter is_post_send evs) = length outcomes"
    using run(3) by (simp add: list_all_iff)
  with run show "\<exists>evs. timer_expirations env gma i outcomes =
            Some (gma\<lparr>requests :=
                    (if outcomes = [] then requests gma
                     else (requests gma)
                       [i := (requests gma ! i)\<lparr>timer := start_timer (timer (requests gma ! i))\<rparr>])\<rparr>,
                  evs) \<and>
          filter on_request evs = [] \<and>
          filter is_post_send evs =
            map (\<lambda>outcome. Ib_post_send (qp gma) (av (requests gma ! i))
                   (Some \<lparr>iob_len = sizeof_mad env, data = mad (requests gma ! i)\<rparr>) (snd outcome))
              (filter fst outcomes) \<and>
          (list_all fst outcomes \<longrightarrow> length (filter is_post_send evs) = length outcomes)"
    by blast
qed

theorem timer_expired_retransmits_witness:
  "(0::nat) < length (requests test_gma) \<and>
   ib_gma_timer_expired gpxe_env test_gma 0 1 True 0 =
     Some (test_gma\<lparr>requests := []\<rparr>,
           [DBGC (Abandoning_TID (0x45585067, 0x07000000)), List_del test_request, Free test_request]) \<and>
   map_option (filter is_post_send \<circ> snd)
     (timer_expirations gpxe_env test_gma 0 [(True, 0), (True, - 1), (False, 0), (True, 0)]) =
     Some [Ib_post_send 1 test_av (Some \<lparr>iob_len = 256, data = test_mad\<rparr>) 0,
           Ib_post_send 1 test_av (Some \<lparr>iob_len = 256, data = test_mad\<rparr>) (- 1),
           Ib_post_send 1 test_av (Some \<lparr>iob_len = 256, data = test_mad\<rparr>) 0] \<and>
   map_option (requests \<circ> fst)
     (timer_expirations gpxe_env test_gma 0 [(True, 0), (True, - 1), (False, 0), (True, 0)]) =
     Some [test_request]"
proof -
  have l: "(0::nat) < length (requests test_gma)"
    by (simp add: test_gma_def)
  have a: "ib_gma_timer_expired gpxe_env test_gma 0 1 True 0 =
     Some (test_gma\<lparr>requests := []\<rparr>,
           [DBGC (Abandoning_TID (0x45585067, 0x07000000)), List_del test_request, Free test_request])"
    by (simp add: ib_gma_timer_expired_def Let_def fixtures)
  from timer_expired_retransmits [OF l, of 1 gpxe_env True 0 "[(True, 0), (True, - 1), (False, 0), (True, 0)]"]
  obtain evs where run: "timer_expirations gpxe_env test_gma 0 [(True, 0), (True, - 1), (False, 0), (True, 0)] =
      Some (test_gma\<lparr>requests := (requests test_gma)
              [0 := (requests test_gma ! 0)\<lparr>timer := start_timer (timer (requests test_gma ! 0))\<rparr>]\<rparr>, evs)"
    "filter is_post_send evs =
       map (\<lambda>outcome. Ib_post_send (qp test_gma) (av (requests test_gma ! 0))
              (Some \<lparr>iob_len = sizeof_mad gpxe_env, data = mad (requests test_gma ! 0)\<rparr>) (snd outcome))
         (filter fst [(True, 0), (True, - 1), (False, 0), (True, 0)])"
    by auto
  show ?thesis
    using l a run by (simp add: start_timer_def test_gma_def test_request_def gpxe_env_def)
qed

section \<open>Issuing a request\<close>

lemma ntohl_htonl: "ntohl e (htonl e x) = x"
  by (simp add: ntohl_def u32_bytes_htonl be_word_bytes)

lemma ib_gma_request_issued:
  "ib_gma_request env s gma mad_p av_p True =
     (0, s\<lparr>next_request_tid := next_request_tid s + 1\<rparr>,
      gma\<lparr>requests :=
        \<lparr>timer = \<lparr>running = True, expired = Some Ib_gma_timer_expired\<rparr>,
         av = (case av_p of
                 Some p \<Rightarrow> avs s p
               | None \<Rightarrow> zero_av\<lparr>lid := ucast (sm_lid (ibdev gma)), sl := ucast (sm_sl (ibdev gma)),
                           qpn := IB_QPN_GMA env, qkey := IB_QKEY_GMA env\<rparr>),
         mad = (mads s mad_p)\<lparr>hdr := (hdr (mads s mad_p))\<lparr>
                 tid := (htonl (host_endian env) IB_GMA_TID_MAGIC,
                         htonl (host_endian env) (next_request_tid s + 1))\<rparr>\<rparr>\<rparr> # requests gma\<rparr>,
      [Zalloc True,
       Start_timer_nodelay
         \<lparr>timer = \<lparr>running = False, expired = Some Ib_gma_timer_expired\<rparr>,
          av = (case av_p of
                  Some p \<Rightarrow> avs s p
                | None \<Rightarrow> zero_av\<lparr>lid := ucast (sm_lid (ibdev gma)), sl := ucast (sm_sl (ibdev gma)),
                            qpn := IB_QPN_GMA env, qkey := IB_QKEY_GMA env\<rparr>),
          mad = (mads s mad_p)\<lparr>hdr := (hdr (mads s mad_p))\<lparr>
                  tid := (htonl (host_endian env) IB_GMA_TID_MAGIC,
                          htonl (host_endian env) (next_request_tid s + 1))\<rparr>\<rparr>\<rparr>])"
  by (simp add: ib_gma_request_def Let_def start_timer_nodelay_def)

lemma ib_gma_request_failed:
  "ib_gma_request env s gma mad_p av_p False =
     (- ENOMEM env, s, gma, [Zalloc False, DBGC Could_not_allocate_MAD_request])"
  by (simp add: ib_gma_request_def)

lemma u32_less_succ:
  fixes n :: u32
  assumes "n \<noteq> 0xFFFFFFFF"
  shows "n < n + 1"
proof -
  have b: "unat n < 2 ^ 32"
    using unsigned_less [of n] by simp
  have "unat n \<noteq> unat (0xFFFFFFFF :: u32)"
    using assms by (simp only: word_unat_eq_iff not_False_eq_True)
  then have "unat n \<noteq> 4294967295"
    by simp
  with b have "unat n + 1 < 2 ^ 32"
    by simp
  then have "unat (n + 1) = unat n + 1"
    by (simp add: unat_word_ariths)
  then show ?thesis
    by (simp add: word_less_nat_alt)
qed


text \<open>
  Claim C8 as stated has the counter word strictly increasing over consecutive issues.
  \<^verbatim>\<open>next_request_tid\<close> is an \<^verbatim>\<open>unsigned int\<close>: from \<open>0xFFFFFFFE\<close> the next request gets
  the counter word \<open>0xFFFFFFFF\<close> and the one after it gets 0.
\<close>

theorem request_tid_not_always_increasing:
  "ntohl Little_endian (snd (issued_tid (ib_gma_request gpxe_env wrap_state idle_gma 0 None True))) =
     0xFFFFFFFF \<and>
   ntohl Little_endian (snd (issued_tid (ib_gma_request gpxe_env
       (state_after (ib_gma_request gpxe_env wrap_state idle_gma 0 None True))
       (gma_after (ib_gma_request gpxe_env wrap_state idle_gma 0 None True)) 0 None True))) = 0 \<and>
   \<not> (0xFFFFFFFF :: u32) < 0"
  by (simp add: ib_gma_request_issued issued_tid_def gma_after_def state_after_def ntohl_htonl
        wrap_state_def test_state_def gpxe_env_def)

text \<open>
  Claim C8, amended. Two requests issued one after the other, on any two agents, the
  second starting from the counter the first left: each gets a transaction id whose first
  word is \<^verbatim>\<open>htonl ( IB_GMA_TID_MAGIC )\<close> and whose second word is \<^verbatim>\<open>htonl\<close> of the shared
  counter after its increment, so that in memory the id reads as the magic word followed
  by the counter, both big-endian; every issue adds one to the counter modulo \<open>2^32\<close>;
  the counter word of the second request is greater than that of the first unless the
  counter wraps from \<open>0xFFFFFFFF\<close> to 0; and the two ids differ in every case.
\<close>

theorem request_tid_assignment:
  assumes "ib_gma_request env s gma mad_p av_p True = (rc, s', gma', evs)"
    and "ib_gma_request env s' gma2 mad_p2 av_p2 True = (rc2, s'', gma2', evs2)"
  shows "\<exists>r r2.
      requests gma' = r # requests gma \<and> requests gma2' = r2 # requests gma2 \<and>
      tid (hdr (mad r)) =
        (htonl (host_endian env) IB_GMA_TID_MAGIC, htonl (host_endian env) (next_request_tid s')) \<and>
      tid (hdr (mad r2)) =
        (htonl (host_endian env) IB_GMA_TID_MAGIC, htonl (host_endian env) (next_request_tid s'')) \<and>
      tid_bytes (host_endian env) (tid (hdr (mad r))) =
        be_bytes IB_GMA_TID_MAGIC @ be_bytes (next_request_tid s') \<and>
      IB_GMA_TID_MAGIC = 0x67505845 \<and>
      ntohl (host_endian env) (fst (tid (hdr (mad r)))) = IB_GMA_TID_MAGIC \<and>
      ntohl (host_endian env) (fst (tid (hdr (mad r2)))) = IB_GMA_TID_MAGIC \<and>
      ntohl (host_endian env) (snd (tid (hdr (mad r)))) = next_request_tid s' \<and>
      ntohl (host_endian env) (snd (tid (hdr (mad r2)))) = next_request_tid s'' \<and>
      next_request_tid s' = next_request_tid s + 1 \<and>
      next_request_tid s'' = next_request_tid s' + 1 \<and>
      (next_request_tid s' \<noteq> 0xFFFFFFFF \<longrightarrow>
         ntohl (host_endian env) (snd (tid (hdr (mad r)))) <
         ntohl (host_endian env) (snd (tid (hdr (mad r2))))) \<and>
      tid (hdr (mad r2)) \<noteq> tid (hdr (mad r))"
proof -
  let ?e = "host_endian env"
  let ?r = "hd (requests gma')" and ?r2 = "hd (requests gma2')"
  have s': "s' = s\<lparr>next_request_tid := next_request_tid s + 1\<rparr>"
    using assms(1) by (simp add: ib_gma_request_issued)
  have s'': "s'' = s'\<lparr>next_request_tid := next_request_tid s' + 1\<rparr>"
    using assms(2) by (simp add: ib_gma_request_issued)
  have r: "requests gma' = ?r # requests gma"
    "tid (hdr (mad ?r)) = (htonl ?e IB_GMA_TID_MAGIC, htonl ?e (next_request_tid s'))"
    using assms(1) by (auto simp: ib_gma_request_issued)
  have r2: "requests gma2' = ?r2 # requests gma2"
    "tid (hdr (mad ?r2)) = (htonl ?e IB_GMA_TID_MAGIC, htonl ?e (next_request_tid s''))"
    using assms(2) by (auto simp: ib_gma_request_issued)
  have n: "next_request_tid s' = next_request_tid s + 1"
    "next_request_tid s'' = next_request_tid s' + 1"
    using s' s'' by simp_all
  have bytes: "tid_bytes ?e (tid (hdr (mad ?r))) =
      be_bytes IB_GMA_TID_MAGIC @ be_bytes (next_request_tid s')"
    by (simp add: r(2) tid_bytes_def u32_bytes_htonl)
  have magic: "IB_GMA_TID_MAGIC = 0x67505845"
    by (simp add: IB_GMA_TID_MAGIC_def)
  have incr: "next_request_tid s' \<noteq> 0xFFFFFFFF \<longrightarrow>
      ntohl ?e (snd (tid (hdr (mad ?r)))) < ntohl ?e (snd (tid (hdr (mad ?r2))))"
    by (simp add: r(2) r2(2) ntohl_htonl n(2) u32_less_succ)
  have "next_request_tid s'' \<noteq> next_request_tid s'"
    by (simp add: n(2))
  then have distinct: "tid (hdr (mad ?r2)) \<noteq> tid (hdr (mad ?r))"
    by (simp add: r(2) r2(2) htonl_eq_iff)
  show ?thesis
    using r r2 bytes magic incr distinct n by (intro exI [of _ ?r] exI [of _ ?r2]) (simp add: ntohl_htonl)
qed

theorem request_tid_assignment_witness:
  "issued_tid (ib_gma_request gpxe_env test_state idle_gma 0 None True) =
     (htonl Little_endian 0x67505845, htonl Little_endian 8) \<and>
   issued_tid (ib_gma_request gpxe_env
       (state_after (ib_gma_request gpxe_env test_state idle_gma 0 None True)) test_gma 1 (Some 0) True) =
     (htonl Little_endian 0x67505845, htonl Little_endian 9) \<and>
   htonl Little_endian 8 \<noteq> htonl Little_endian 9"
proof -
  let ?a = "ib_gma_request gpxe_env test_state idle_gma 0 None True"
  let ?b = "ib_gma_request gpxe_env (state_after ?a) test_gma 1 (Some 0) True"
  have a: "?a = (fst ?a, state_after ?a, gma_after ?a, snd (snd (snd ?a)))"
    by (simp add: state_after_def gma_after_def)
  have b: "?b = (fst ?b, state_after ?b, gma_after ?b, snd (snd (snd ?b)))"
    by (simp add: state_after_def gma_after_def)
  from request_tid_assignment [OF a b]
  obtain r r2 where f: "requests (gma_after ?a) = r # requests idle_gma"
    "requests (gma_after ?b) = r2 # requests test_gma"
    "tid (hdr (mad r)) = (htonl (host_endian gpxe_env) IB_GMA_TID_MAGIC,
        htonl (host_endian gpxe_env) (next_request_tid (state_after ?a)))"
    "tid (hdr (mad r2)) = (htonl (host_endian gpxe_env) IB_GMA_TID_MAGIC,
        htonl (host_endian gpxe_env) (next_request_tid (state_after ?b)))"
    "IB_GMA_TID_MAGIC = 0x67505845"
    "next_request_tid (state_after ?a) = next_request_tid test_state + 1"
    "next_request_tid (state_after ?b) = next_request_tid (state_after ?a) + 1"
    "tid (hdr (mad r2)) \<noteq> tid (hdr (mad r))"
    by blast
  have e: "host_endian gpxe_env = Little_endian" and n: "next_request_tid test_state = 7"
    by (simp_all add: gpxe_env_def test_state_def)
  have "issued_tid ?a = (htonl Little_endian 0x67505845, htonl Little_endian 8)"
    using f(1,3,5,6) e n by (simp add: issued_tid_def)
  moreover have "issued_tid ?b = (htonl Little_endian 0x67505845, htonl Little_endian 9)"
    using f(2,4,5,6,7) e n by (simp add: issued_tid_def)
  moreover have "htonl Little_endian 8 \<noteq> htonl Little_endian 9"
    using f(3,4,5,6,7,8) e n by simp
  ultimately show ?thesis by simp
qed

text \<open>
  Claim C9. \<open>ib_gma_request\<close> leaves the memory of the caller as it was, the MAD and the
  address vector its arguments point to included, whether \<^verbatim>\<open>zalloc\<close> succeeds or not. On
  success the new transaction id sits in the MAD of the request record, which otherwise
  is the caller's MAD, and a given address vector is copied into the record; on failure
  the agent and the counter are unchanged and \<^verbatim>\<open>-ENOMEM\<close> is returned.
\<close>

theorem request_leaves_caller_buffers:
  "mads (state_after (ib_gma_request env s gma mad_p av_p zalloc_ok)) = mads s \<and>
   avs (state_after (ib_gma_request env s gma mad_p av_p zalloc_ok)) = avs s \<and>
   (zalloc_ok \<longrightarrow>
      (\<exists>r. requests (gma_after (ib_gma_request env s gma mad_p av_p zalloc_ok)) = r # requests gma \<and>
           tid (hdr (mad r)) =
             (htonl (host_endian env) IB_GMA_TID_MAGIC,
              htonl (host_endian env) (next_request_tid s + 1)) \<and>
           mad r = (mads s mad_p)\<lparr>hdr := (hdr (mads s mad_p))\<lparr>tid := tid (hdr (mad r))\<rparr>\<rparr> \<and>
           (\<forall>p. av_p = Some p \<longrightarrow> av r = avs s p))) \<and>
   (\<not> zalloc_ok \<longrightarrow>
      ib_gma_request env s gma mad_p av_p zalloc_ok =
        (- ENOMEM env, s, gma, [Zalloc False, DBGC Could_not_allocate_MAD_request]))"
proof (cases zalloc_ok)
  case True
  then show ?thesis
    by (simp add: ib_gma_request_issued state_after_def gma_after_def)
next
  case False
  then show ?thesis
    by (simp add: ib_gma_request_failed state_after_def)
qed

theorem request_leaves_caller_buffers_witness:
  "tid (hdr (mads (state_after (ib_gma_request gpxe_env test_state idle_gma 0 (Some 0) True)) 0)) =
     (0x45585067, 0x07000000) \<and>
   avs (state_after (ib_gma_request gpxe_env test_state idle_gma 0 (Some 0) True)) 0 = test_av \<and>
   issued_tid (ib_gma_request gpxe_env test_state idle_gma 0 (Some 0) True) =
     (htonl Little_endian IB_GMA_TID_MAGIC, htonl Little_endian 8)"
proof -
  let ?a = "ib_gma_request gpxe_env test_state idle_gma 0 (Some 0) True"
  from request_leaves_caller_buffers [of gpxe_env test_state idle_gma 0 "Some 0" True]
  obtain r where f: "mads (state_after ?a) = mads test_state" "avs (state_after ?a) = avs test_state"
    "requests (gma_after ?a) = r # requests idle_gma"
    "tid (hdr (mad r)) = (htonl (host_endian gpxe_env) IB_GMA_TID_MAGIC,
        htonl (host_endian gpxe_env) (next_request_tid test_state + 1))"
    by auto
  then show ?thesis
    by (simp add: issued_tid_def test_state_def test_mad_def test_hdr_def gpxe_env_def)
qed

end
